theory Spec2Isabelle
  imports Complex_Main "HOL-Library.Sublist" "HOL-Library.Multiset"
begin

section \<open>Caregiver stress risk calculator: shallow embedding\<close>

text \<open>
  The theory embeds the helper functions of \<^verbatim>\<open>app.py\<close> and the retry loop of
  \<^verbatim>\<open>.github/workflows/wake_up_app.py\<close>.

  Conventions of the embedding.
  \<^item> A Python \<^verbatim>\<open>float\<close> is modelled by the real number it denotes. Comparisons of
    finite floats are exact, so \<^verbatim>\<open>prob >= thr\<close> is \<open>thr \<le> prob\<close>. The product
    \<^verbatim>\<open>prob*100\<close> and the conversion \<^verbatim>\<open>float(n)\<close> of an integer are rounded to the
    nearest double, ties to even (\<open>round_to_double\<close>). The logistic map is taken in exact
    arithmetic. NaN, the infinities, overflow and the sign of zero are outside the model.
  \<^item> A Python \<^verbatim>\<open>str\<close> is a \<open>string\<close>. The only non-ASCII character of the source,
    U+2265 in the high-risk narrative, is written as its three UTF-8 bytes.
  \<^item> A raised exception is the \<open>Inl\<close> branch of a sum; \<^verbatim>\<open>str(e)\<close> is \<open>exn_str e\<close>.
\<close>

subsection \<open>Exceptions\<close>

datatype py_exn =
    ValueError string
  | RuntimeError string
  | TypeError string
  | IndexError string
  | KeyError string
  | AttributeError string
  | OverflowError string
  | OSError string
  | JSONDecodeError string
  | OtherError string

fun exn_str :: "py_exn \<Rightarrow> string" where
  "exn_str (ValueError m) = m"
| "exn_str (RuntimeError m) = m"
| "exn_str (TypeError m) = m"
| "exn_str (IndexError m) = m"
| "exn_str (KeyError m) = m"
| "exn_str (AttributeError m) = m"
| "exn_str (OverflowError m) = m"
| "exn_str (OSError m) = m"
| "exn_str (JSONDecodeError m) = m"
| "exn_str (OtherError m) = m"

subsection \<open>Double-precision arithmetic\<close>

text \<open>Rounding to the nearest integer, ties to the even one.\<close>

definition round_half_even :: "real \<Rightarrow> int" where
  "round_half_even x =
     (let f = \<lfloor>x\<rfloor>; r = x - of_int f
      in if r < 1 / 2 then f else if 1 / 2 < r then f + 1 else if even f then f else f + 1)"

text \<open>The number of binary digits of a natural number (\<^verbatim>\<open>int.bit_length\<close>).\<close>

fun bit_length :: "nat \<Rightarrow> nat" where
  "bit_length n = (if n = 0 then 0 else Suc (bit_length (n div 2)))"

declare bit_length.simps [simp del]

definition pow2 :: "int \<Rightarrow> real" where
  "pow2 k = (if 0 \<le> k then 2 ^ nat k else 1 / 2 ^ nat (- k))"

text \<open>For \<open>x > 0\<close>, the exponent \<open>e\<close> with \<open>pow2 e \<le> x < pow2 (e + 1)\<close>.\<close>

definition ilog2 :: "real \<Rightarrow> int" where
  "ilog2 x =
     (if 1 \<le> x then int (bit_length (nat \<lfloor>x\<rfloor>)) - 1
      else - int (bit_length (nat (\<lceil>1 / x\<rceil> - 1))))"

text \<open>
  The spacing of the doubles around \<open>x\<close>: 53 significant bits, and \<open>pow2 (- 1074)\<close> in
  the subnormal range.
\<close>

definition double_ulp :: "real \<Rightarrow> real" where
  "double_ulp x = pow2 (max (ilog2 \<bar>x\<bar>) (- 1022) - 52)"

text \<open>The double nearest to \<open>x\<close>, ties to the even significand (IEEE 754 round-to-nearest).\<close>

definition round_to_double :: "real \<Rightarrow> real" where
  "round_to_double x =
     (if x = 0 then 0 else of_int (round_half_even (x / double_ulp x)) * double_ulp x)"

text \<open>\<^verbatim>\<open>a * b\<close> on floats.\<close>

definition float_mul :: "real \<Rightarrow> real \<Rightarrow> real" where
  "float_mul a b = round_to_double (a * b)"

subsection \<open>Fixed-point formatting of numbers (\<^verbatim>\<open>f"{x:.1f}"\<close>, \<^verbatim>\<open>f"{x:.2f}"\<close>)\<close>

definition digit_char :: "nat \<Rightarrow> char" where
  "digit_char n = ''0123456789'' ! n"

fun show_nat :: "nat \<Rightarrow> string" where
  "show_nat n =
     (if n < 10 then [digit_char n] else show_nat (n div 10) @ [digit_char (n mod 10)])"

declare show_nat.simps [simp del]

text \<open>The last \<open>d\<close> decimal digits of \<open>n\<close>, with leading zeros.\<close>

fun show_digits :: "nat \<Rightarrow> nat \<Rightarrow> string" where
  "show_digits 0 n = []"
| "show_digits (Suc d) n = show_digits d (n div 10) @ [digit_char (n mod 10)]"

text \<open>
  \<^verbatim>\<open>format(x, ".<d>f")\<close>: the sign, the integer part, and \<open>d\<close> digits after the point,
  rounded from the exact value of \<open>x\<close> with ties to even.
\<close>

definition format_f :: "nat \<Rightarrow> real \<Rightarrow> string" where
  "format_f d x =
     (let q = nat (round_half_even (\<bar>x\<bar> * 10 ^ d))
      in (if x < 0 then ''-'' else [])
         @ show_nat (q div 10 ^ d)
         @ (if d = 0 then [] else ''.'' @ show_digits d (q mod 10 ^ d)))"

text \<open>
  Reading a decimal numeral back: the value a reader of the text gets. It is used only to
  state what a formatted number means.
\<close>

definition digit_val :: "char \<Rightarrow> nat" where
  "digit_val c = of_char c - 48"

definition read_nat :: "string \<Rightarrow> nat" where
  "read_nat s = foldl (\<lambda>acc c. 10 * acc + digit_val c) 0 s"

definition read_unsigned :: "string \<Rightarrow> real" where
  "read_unsigned s =
     (let ip = takeWhile (\<lambda>c. c \<noteq> CHR ''.'') s;
          fp = drop 1 (dropWhile (\<lambda>c. c \<noteq> CHR ''.'') s)
      in real (read_nat ip) + real (read_nat fp) / 10 ^ length fp)"

definition read_decimal :: "string \<Rightarrow> real" where
  "read_decimal s =
     (case s of
        c # rest \<Rightarrow> if c = CHR ''-'' then - read_unsigned rest else read_unsigned s
      | [] \<Rightarrow> 0)"

text \<open>The number of digits after the decimal point.\<close>

definition frac_digits :: "string \<Rightarrow> nat" where
  "frac_digits s = length (drop 1 (dropWhile (\<lambda>c. c \<noteq> CHR ''.'') s))"

subsection \<open>Risk label and narrative (\<^verbatim>\<open>risk_narrative\<close>, \<^verbatim>\<open>pred = int(prob >= thr)\<close>)\<close>

definition ge_sign :: string where
  "ge_sign = [CHR 0xE2, CHR 0x89, CHR 0xA5]"

definition risk_narrative :: "real \<Rightarrow> real \<Rightarrow> string \<times> string" where
  "risk_narrative prob thr =
     (let pct = format_f 1 (float_mul prob 100) @ ''%''
      in if thr \<le> prob then
           (''High stress risk'',
            ''Predicted probability of caregiver stress is '' @ pct
              @ '' ('' @ ge_sign @ '' threshold '' @ format_f 2 thr @ ''). ''
              @ ''This screening suggests a high risk of stress. '')
         else
           (''Low stress risk'',
            ''Predicted probability of caregiver stress is '' @ pct
              @ '' (< threshold '' @ format_f 2 thr @ ''). ''
              @ ''No immediate concern indicated by this model.''))"

text \<open>\<^verbatim>\<open>pred = int(prob >= thr)\<close>\<close>

definition pred :: "real \<Rightarrow> real \<Rightarrow> int" where
  "pred prob thr = (if thr \<le> prob then 1 else 0)"

subsection \<open>Record builder (\<^verbatim>\<open>ensure_feature_dataframe\<close>)\<close>

definition FINAL_FEATURES :: "string list" where
  "FINAL_FEATURES =
     [''daydurG'', ''healthR'', ''age_G'', ''adlR'', ''caredurG'',
      ''healthG'', ''ageR'', ''adlG'', ''hukou_cityR'', ''is_citycentre'']"

text \<open>
  A Python \<^verbatim>\<open>dict\<close> is the list of its items in insertion order. A data frame is its
  column names and its rows.
\<close>

type_synonym 'v pydict = "(string \<times> 'v) list"

record 'v dataframe =
  columns :: "string list"
  rows :: "'v list list"

text \<open>\<^verbatim>\<open>pd.DataFrame([input_dict])\<close>: one row, the columns are the keys in insertion order.\<close>

definition dataframe_of_record :: "'v pydict \<Rightarrow> 'v dataframe" where
  "dataframe_of_record d = \<lparr>columns = map fst d, rows = [map snd d]\<rparr>"

definition cell :: "string list \<Rightarrow> 'v list \<Rightarrow> string \<Rightarrow> 'v option" where
  "cell cols r c = map_of (zip cols r) c"

text \<open>\<^verbatim>\<open>df[cols]\<close>: the named columns in the order asked for; a missing name raises.\<close>

definition select_columns :: "'v dataframe \<Rightarrow> string list \<Rightarrow> py_exn + 'v dataframe" where
  "select_columns df cols =
     (if list_ex (\<lambda>c. c \<notin> set (columns df)) cols then Inl (KeyError ''not in index'')
      else case those (map (\<lambda>r. those (map (cell (columns df) r) cols)) (rows df)) of
             Some rs \<Rightarrow> Inr \<lparr>columns = cols, rows = rs\<rparr>
           | None \<Rightarrow> Inl (KeyError ''not in index''))"

text \<open>
  \<^verbatim>\<open>repr\<close> of a list of strings, as the f-string prints \<^verbatim>\<open>{missing}\<close>. The strings
  printed are schema names, which have no quote, backslash or control character, so
  \<^verbatim>\<open>repr\<close> of each is the name between single quotes.
\<close>

definition py_repr_str :: "string \<Rightarrow> string" where
  "py_repr_str s = [CHR 0x27] @ s @ [CHR 0x27]"

fun join :: "string \<Rightarrow> string list \<Rightarrow> string" where
  "join sep [] = []"
| "join sep [x] = x"
| "join sep (x # y # ys) = x @ sep @ join sep (y # ys)"

definition py_repr_list :: "string list \<Rightarrow> string" where
  "py_repr_list xs = ''['' @ join '', '' (map py_repr_str xs) @ '']''"

definition ensure_feature_dataframe :: "'v pydict \<Rightarrow> string list \<Rightarrow> py_exn + 'v dataframe" where
  "ensure_feature_dataframe input_dict feature_order =
     (let df = dataframe_of_record input_dict;
          missing = filter (\<lambda>c. c \<notin> set (columns df)) feature_order
      in if missing \<noteq> [] then
           Inl (ValueError (''Missing required features: '' @ py_repr_list missing))
         else select_columns df feature_order)"

text \<open>
  Reading the names back out of a printed list: the texts between the first and second
  quote, the third and fourth, and so on. Used only to state which names a message shows.
\<close>

fun quoted_names :: "bool \<Rightarrow> string \<Rightarrow> string \<Rightarrow> string list" where
  "quoted_names inside acc [] = []"
| "quoted_names inside acc (c # cs) =
     (if c = CHR 0x27 then
        (if inside then rev acc # quoted_names False [] cs else quoted_names True [] cs)
      else quoted_names inside (if inside then c # acc else acc) cs)"

definition names_in_message :: "string \<Rightarrow> string list" where
  "names_in_message msg = quoted_names False [] msg"

subsection \<open>Probability engine (\<^verbatim>\<open>predict_proba\<close>)\<close>

text \<open>
  A matrix is the list of its rows. A model is an object that may or may not have a
  \<^verbatim>\<open>predict_proba\<close> and a \<^verbatim>\<open>decision_function\<close> method (\<^verbatim>\<open>hasattr\<close> is \<open>\<noteq> None\<close>);
  either may raise.
\<close>

type_synonym matrix = "real list list"

record model =
  predict_proba_method :: "(matrix \<Rightarrow> py_exn + matrix) option"
  decision_function_method :: "(matrix \<Rightarrow> py_exn + real list) option"

text \<open>\<^verbatim>\<open>P[:, 1]\<close>: the second column; an index error when the matrix has fewer columns.\<close>

definition column1 :: "matrix \<Rightarrow> py_exn + real list" where
  "column1 P =
     (if list_all (\<lambda>r. 2 \<le> length r) P then Inr (map (\<lambda>r. r ! 1) P)
      else Inl (IndexError ''index 1 is out of bounds for axis 1''))"

definition predict_proba :: "model \<Rightarrow> matrix \<Rightarrow> py_exn + real list" where
  "predict_proba m X =
     (case predict_proba_method m of
        Some f \<Rightarrow> (case f X of Inl e \<Rightarrow> Inl e | Inr P \<Rightarrow> column1 P)
      | None \<Rightarrow>
          (case decision_function_method m of
             Some g \<Rightarrow>
               (case g X of
                  Inl e \<Rightarrow> Inl e
                | Inr z \<Rightarrow> Inr (map (\<lambda>zi. 1 / (1 + exp (- zi))) z))
           | None \<Rightarrow> Inl (RuntimeError ''Model does not support probability outputs'')))"

text \<open>\<^verbatim>\<open>float(a)\<close> of an array: its only element, a type error for any other size.\<close>

definition float_of_array :: "real list \<Rightarrow> py_exn + real" where
  "float_of_array a =
     (case a of
        [p] \<Rightarrow> Inr p
      | _ \<Rightarrow> Inl (TypeError ''only length-1 arrays can be converted to Python scalars''))"

subsection \<open>Threshold loader (\<^verbatim>\<open>load_threshold\<close>)\<close>

datatype json =
    JNull
  | JBool bool
  | JInt int
  | JFloat real
  | JStr string
  | JArr "json list"
  | JObj "(string \<times> json) list"

text \<open>
  The world \<^verbatim>\<open>load_threshold\<close> runs in: \<^verbatim>\<open>os.path.exists\<close>, opening and reading a
  file, \<^verbatim>\<open>json.load\<close>, and \<^verbatim>\<open>float\<close> of a string.
\<close>

record fs_env =
  path_exists :: "string \<Rightarrow> bool"
  read_text :: "string \<Rightarrow> py_exn + string"
  json_loads :: "string \<Rightarrow> py_exn + json"
  float_of_str :: "string \<Rightarrow> real option"

text \<open>\<^verbatim>\<open>d.get(key, default)\<close>: only a dict has \<^verbatim>\<open>get\<close>.\<close>

definition dict_get :: "json \<Rightarrow> string \<Rightarrow> json \<Rightarrow> py_exn + json" where
  "dict_get d key dflt =
     (case d of
        JObj kvs \<Rightarrow> (case map_of kvs key of Some v \<Rightarrow> Inr v | None \<Rightarrow> Inr dflt)
      | _ \<Rightarrow> Inl (AttributeError ''object has no attribute get''))"

text \<open>
  \<^verbatim>\<open>float(v)\<close> of a decoded JSON value: a float as it is, an integer as the nearest
  double (an overflow error beyond the largest double), a boolean as 1 or 0, a string as
  the number it spells; anything else is a type error.
\<close>

definition py_float :: "fs_env \<Rightarrow> json \<Rightarrow> py_exn + real" where
  "py_float env v =
     (case v of
        JFloat r \<Rightarrow> Inr r
      | JInt n \<Rightarrow>
          if \<bar>n\<bar> < 2 ^ 1024 - 2 ^ 970 then Inr (round_to_double (of_int n))
          else Inl (OverflowError ''int too large to convert to float'')
      | JBool b \<Rightarrow> Inr (if b then 1 else 0)
      | JStr s \<Rightarrow>
          (case float_of_str env s of
             Some r \<Rightarrow> Inr r
           | None \<Rightarrow> Inl (ValueError ''could not convert string to float''))
      | _ \<Rightarrow> Inl (TypeError ''float() argument must be a string or a real number''))"

text \<open>The body of the \<^verbatim>\<open>try\<close> block.\<close>

definition load_threshold_body :: "fs_env \<Rightarrow> string \<Rightarrow> string \<Rightarrow> real \<Rightarrow> py_exn + real" where
  "load_threshold_body env path key dflt =
     (case read_text env path of
        Inl e \<Rightarrow> Inl e
      | Inr contents \<Rightarrow>
          (case json_loads env contents of
             Inl e \<Rightarrow> Inl e
           | Inr d \<Rightarrow>
               (case dict_get d key (JFloat dflt) of
                  Inl e \<Rightarrow> Inl e
                | Inr v \<Rightarrow> py_float env v)))"

definition load_threshold :: "fs_env \<Rightarrow> string \<Rightarrow> string \<Rightarrow> real \<Rightarrow> py_exn + real" where
  "load_threshold env path key dflt =
     (if \<not> path_exists env path then Inr dflt
      else case load_threshold_body env path key dflt of
             Inr v \<Rightarrow> Inr v
           | Inl e \<Rightarrow> Inr dflt)"

subsection \<open>Attribution shapes (the \<^verbatim>\<open>_sv\<close> dispatch of the SHAP block)\<close>

text \<open>
  An array is its shape and its entries in row-major order. The explainer's expected value
  is a number or a sequence of numbers (a list or a one-dimensional array). The explainer's
  output \<^verbatim>\<open>_sv\<close> is a list of arrays, an object with \<^verbatim>\<open>values\<close> and perhaps
  \<^verbatim>\<open>base_values\<close>, or a bare array.
\<close>

datatype ndarray = NDArray (shape: "nat list") (entries: "real list")

datatype expected = Scalar real | Seq "real list"

datatype shap_output =
    SvList "ndarray list"
  | SvStructured ndarray "expected option"
  | SvArray ndarray

text \<open>\<^verbatim>\<open>np.asarray(a).reshape(1, -1)\<close>: one row holding every entry.\<close>

definition reshape_row :: "ndarray \<Rightarrow> real list list" where
  "reshape_row a = [entries a]"

definition shap_normalize :: "shap_output \<Rightarrow> expected \<Rightarrow> py_exn + (real list list \<times> expected)" where
  "shap_normalize sv expected_value =
     (case sv of
        SvList arrs \<Rightarrow>
          (case (if 1 < length arrs then Inr (arrs ! 1)
                 else case arrs of
                        a # _ \<Rightarrow> Inr a
                      | [] \<Rightarrow> Inl (IndexError ''list index out of range'')) of
             Inl e \<Rightarrow> Inl e
           | Inr a \<Rightarrow>
               Inr (reshape_row a,
                    (case expected_value of
                       Seq es \<Rightarrow> if 1 < length es then Scalar (es ! 1) else expected_value
                     | Scalar b \<Rightarrow> expected_value)))
      | SvStructured vals base_values \<Rightarrow>
          Inr (reshape_row vals,
               (case base_values of Some b \<Rightarrow> b | None \<Rightarrow> expected_value))
      | SvArray a \<Rightarrow> Inr (reshape_row a, expected_value))"

definition is_scalar :: "expected \<Rightarrow> bool" where
  "is_scalar b = (case b of Scalar x \<Rightarrow> True | Seq xs \<Rightarrow> False)"

subsection \<open>Handling a submission (the \<^verbatim>\<open>if submitted:\<close> block)\<close>

definition VARIABLE_LABELS_DICT :: "(string \<times> string) list" where
  "VARIABLE_LABELS_DICT =
     [(''daydurG'', ''Daily care hours (Caregiver)''),
      (''healthR'', ''Self-rated health (Recipient)''),
      (''age_G'', ''Age (Caregiver)''),
      (''adlR'', ''ADL (Recipient)''),
      (''caredurG'', ''Duration of care (Caregiver)''),
      (''healthG'', ''Self-rated health (Caregiver)''),
      (''ageR'', ''Age (Recipient)''),
      (''adlG'', ''ADL (Caregiver)''),
      (''hukou_cityR'', ''Hukou status (Recipient)''),
      (''is_citycentre'', ''City-center residence (Recipient)'')]"

definition VALUE_MAPPINGS :: "(string \<times> (int \<times> string) list) list" where
  "VALUE_MAPPINGS =
     [(''adlG'', [(0, ''Intact''), (1, ''Mild''), (2, ''Moderate''), (3, ''Severe'')]),
      (''adlR'', [(0, ''Intact''), (1, ''Mild''), (2, ''Moderate''), (3, ''Severe'')]),
      (''healthR'',
         [(1, ''Very poor''), (2, ''Poor''), (3, ''Fair''), (4, ''Good''), (5, ''Excellent'')]),
      (''hukou_cityR'', [(0, ''Rural''), (1, ''Urban'')]),
      (''is_citycentre'', [(0, ''No''), (1, ''Yes'')]),
      (''healthG'',
         [(1, ''Very poor''), (2, ''Poor''), (3, ''Fair''), (4, ''Good''), (5, ''Excellent'')])]"

definition UNITS :: "(string \<times> string) list" where
  "UNITS =
     [(''daydurG'', ''hours''), (''age_G'', ''years''), (''ageR'', ''years''),
      (''caredurG'', ''years'')]"

text \<open>
  What the page shows, in order. A cell of the input summary is kept as the value with
  its label or unit, not as the printed text.
\<close>

datatype display_value = Labelled real string | WithUnit real string | Plain real

datatype ui_event =
    Metric string string
  | StError string
  | StSuccess string
  | Markdown string
  | Dataframe "(string \<times> display_value) list"
  | Subheader string
  | Pyplot "real list" expected

text \<open>
  The collaborators of a submission: the fitted preprocessor, the classifier, the tree
  explainer (unwrapping the estimator, building the explainer, \<^verbatim>\<open>shap_values\<close> and
  \<^verbatim>\<open>expected_value\<close>), and the drawing of the waterfall figure. Each may raise.
\<close>

record app_env =
  preprocessor_transform :: "real dataframe \<Rightarrow> py_exn + matrix"
  app_model :: model
  shap_explain :: "matrix \<Rightarrow> py_exn + (shap_output \<times> expected)"
  render_waterfall :: "real list \<Rightarrow> expected \<Rightarrow> py_exn option"

definition str_int :: "int \<Rightarrow> string" where
  "str_int n = (if n < 0 then ''-'' else []) @ show_nat (nat \<bar>n\<bar>)"

text \<open>Steps 2 and 3: the metrics, the label in its styling, the narrative, the note.\<close>

definition result_events :: "real \<Rightarrow> real \<Rightarrow> ui_event list" where
  "result_events prob thr =
     (let p = pred prob thr;
          (label, paragraph) = risk_narrative prob thr
      in [Metric ''Probability'' (format_f 2 (float_mul prob 100) @ ''%''),
          Metric ''Threshold'' (format_f 2 thr),
          Metric ''Predicted label'' (str_int p),
          (if p = 1 then StError label else StSuccess label),
          Markdown paragraph,
          Markdown ''<div class='small-note'>This is a screening aid, not a diagnosis.</div>''])"

text \<open>\<^verbatim>\<open>df.iloc[0][k]\<close>\<close>

definition iloc0 :: "'v dataframe \<Rightarrow> string \<Rightarrow> py_exn + 'v" where
  "iloc0 df k =
     (case rows df of
        [] \<Rightarrow> Inl (IndexError ''single positional indexer is out-of-bounds'')
      | r # _ \<Rightarrow> (case cell (columns df) r k of Some v \<Rightarrow> Inr v | None \<Rightarrow> Inl (KeyError k)))"

definition dict_get_or :: "(string \<times> 'a) list \<Rightarrow> string \<Rightarrow> 'a \<Rightarrow> 'a" where
  "dict_get_or d k dflt = (case map_of d k of Some v \<Rightarrow> v | None \<Rightarrow> dflt)"

definition lookup_num :: "(int \<times> string) list \<Rightarrow> real \<Rightarrow> string option" where
  "lookup_num m v = map_of (map (\<lambda>(n, l). (real_of_int n, l)) m) v"

definition echo_row :: "string \<Rightarrow> real \<Rightarrow> string \<times> display_value" where
  "echo_row k v =
     (let label_k = dict_get_or VARIABLE_LABELS_DICT k k
      in case (case map_of VALUE_MAPPINGS k of Some m \<Rightarrow> lookup_num m v | None \<Rightarrow> None) of
           Some l \<Rightarrow> (label_k, Labelled v l)
         | None \<Rightarrow>
             (case map_of UNITS k of
                Some unit \<Rightarrow> (label_k, if unit \<noteq> [] then WithUnit v unit else Plain v)
              | None \<Rightarrow> (label_k, Plain v)))"

fun input_echo :: "real dataframe \<Rightarrow> string list \<Rightarrow> py_exn + (string \<times> display_value) list" where
  "input_echo df [] = Inr []"
| "input_echo df (k # ks) =
     (case iloc0 df k of
        Inl e \<Rightarrow> Inl e
      | Inr v \<Rightarrow>
          (case input_echo df ks of
             Inl e \<Rightarrow> Inl e
           | Inr rest \<Rightarrow> Inr (echo_row k v # rest)))"

text \<open>Step 5: what the SHAP block shows, and the exception it raises, if any.\<close>

definition shap_block :: "app_env \<Rightarrow> matrix \<Rightarrow> ui_event list \<times> py_exn option" where
  "shap_block env X =
     (let shown = [Subheader ''SHAP waterfall (single case)'']
      in case shap_explain env X of
           Inl e \<Rightarrow> (shown, Some e)
         | Inr (sv, expected_value) \<Rightarrow>
             (case shap_normalize sv expected_value of
                Inl e \<Rightarrow> (shown, Some e)
              | Inr (shap_vec, base) \<Rightarrow>
                  (case shap_vec of
                     [] \<Rightarrow> (shown, Some (IndexError ''index 0 is out of bounds''))
                   | v # _ \<Rightarrow>
                       (case render_waterfall env v base of
                          Some e \<Rightarrow> (shown, Some e)
                        | None \<Rightarrow> (shown @ [Pyplot v base], None)))))"

text \<open>The body of the \<^verbatim>\<open>try\<close>: what it has shown, and the exception that ended it, if any.\<close>

definition submit_body ::
  "app_env \<Rightarrow> real pydict \<Rightarrow> real \<Rightarrow> bool \<Rightarrow> ui_event list \<times> py_exn option" where
  "submit_body env user_inputs thr show_shap =
     (case ensure_feature_dataframe user_inputs FINAL_FEATURES of
        Inl e \<Rightarrow> ([], Some e)
      | Inr df_single_orig \<Rightarrow>
     (case preprocessor_transform env df_single_orig of
        Inl e \<Rightarrow> ([], Some e)
      | Inr X_single_model \<Rightarrow>
     (case predict_proba (app_model env) X_single_model of
        Inl e \<Rightarrow> ([], Some e)
      | Inr a \<Rightarrow>
     (case float_of_array a of
        Inl e \<Rightarrow> ([], Some e)
      | Inr prob \<Rightarrow>
     (case input_echo df_single_orig FINAL_FEATURES of
        Inl e \<Rightarrow> (result_events prob thr, Some e)
      | Inr disp_rows \<Rightarrow>
          (let shown =
                 result_events prob thr @ [Markdown ''**Input summary**'', Dataframe disp_rows]
           in if show_shap then
                (case shap_block env X_single_model of (evs, r) \<Rightarrow> (shown @ evs, r))
              else (shown, None)))))))"

text \<open>The \<^verbatim>\<open>except Exception as e\<close> handler adds its message to what was shown.\<close>

definition on_submit :: "app_env \<Rightarrow> real pydict \<Rightarrow> real \<Rightarrow> bool \<Rightarrow> ui_event list" where
  "on_submit env user_inputs thr show_shap =
     (case submit_body env user_inputs thr show_shap of
        (shown, None) \<Rightarrow> shown
      | (shown, Some e) \<Rightarrow> shown @ [StError (''Prediction failed: '' @ exn_str e)])"

subsection \<open>Keep-alive probe (\<^verbatim>\<open>wake_up_streamlit_app\<close>)\<close>

text \<open>
  The exceptions the browser driver raises. \<^verbatim>\<open>TimeoutException\<close> is a subclass of
  \<^verbatim>\<open>WebDriverException\<close>: a handler for the latter catches both.
\<close>

datatype selenium_exn = TimeoutException | WebDriverException | OtherException

text \<open>
  What the browser does in one attempt, call by call; \<open>None\<close> is a normal return.
  \<open>find_button\<close> is the wait of at most 10 seconds for the resume button to be present,
  \<open>button_gone\<close> the wait of at most 30 seconds for it to become invisible.
\<close>

record attempt_env =
  create_driver :: "selenium_exn option"
  driver_get :: "selenium_exn option"
  find_button :: "selenium_exn option"
  click_button :: "selenium_exn option"
  button_gone :: "selenium_exn option"
  driver_quit :: "selenium_exn option"

datatype action =
    CreateDriver
  | Get string
  | Sleep nat
  | FindButton
  | Click
  | WaitGone
  | Quit

text \<open>
  The inner \<^verbatim>\<open>try\<close> around the button: \<open>Inr True\<close> is \<^verbatim>\<open>return True\<close>, \<open>Inr False\<close>
  is falling out of it after the warning, \<open>Inl e\<close> an exception it does not catch.
\<close>

definition button_block :: "attempt_env \<Rightarrow> (selenium_exn + bool) \<times> action list" where
  "button_block env =
     (case find_button env of
        Some TimeoutException \<Rightarrow> (Inr True, [FindButton])
      | Some e \<Rightarrow> (Inl e, [FindButton])
      | None \<Rightarrow>
          (case click_button env of
             Some TimeoutException \<Rightarrow> (Inr True, [FindButton, Click])
           | Some e \<Rightarrow> (Inl e, [FindButton, Click])
           | None \<Rightarrow>
               (case button_gone env of
                  None \<Rightarrow> (Inr True, [FindButton, Click, Sleep 10, WaitGone])
                | Some TimeoutException \<Rightarrow> (Inr False, [FindButton, Click, Sleep 10, WaitGone])
                | Some e \<Rightarrow> (Inl e, [FindButton, Click, Sleep 10, WaitGone]))))"

text \<open>The outer \<^verbatim>\<open>try\<close> of one attempt, before its handlers and \<^verbatim>\<open>finally\<close>.\<close>

definition attempt_body :: "attempt_env \<Rightarrow> string \<Rightarrow> (selenium_exn + bool) \<times> action list" where
  "attempt_body env url =
     (case create_driver env of
        Some e \<Rightarrow> (Inl e, [CreateDriver])
      | None \<Rightarrow>
          (case driver_get env of
             Some e \<Rightarrow> (Inl e, [CreateDriver, Get url])
           | None \<Rightarrow>
               (case button_block env of
                  (r, tr) \<Rightarrow> (r, [CreateDriver, Get url, Sleep 5] @ tr))))"

text \<open>
  One attempt: both handlers only log, and \<^verbatim>\<open>finally\<close> quits the driver when one was
  created, swallowing any error. The result is \<open>True\<close> when the attempt returned
  \<^verbatim>\<open>True\<close>, \<open>False\<close> when control reaches the code after the \<^verbatim>\<open>try\<close>.
\<close>

definition run_attempt :: "attempt_env \<Rightarrow> string \<Rightarrow> bool \<times> action list" where
  "run_attempt env url =
     (case attempt_body env url of
        (r, tr) \<Rightarrow>
          ((case r of Inr b \<Rightarrow> b | Inl e \<Rightarrow> False),
           tr @ (if create_driver env = None then [Quit] else [])))"

text \<open>
  \<^verbatim>\<open>for attempt in range(1, max_retries + 1)\<close>: \<open>attempt\<close> is the number of the attempt
  and \<open>remaining\<close> the number of attempts left, this one included.
\<close>

fun attempt_loop ::
  "(nat \<Rightarrow> attempt_env) \<Rightarrow> string \<Rightarrow> nat \<Rightarrow> nat \<Rightarrow> nat \<Rightarrow> bool \<times> action list" where
  "attempt_loop envs url max_retries attempt 0 = (False, [])"
| "attempt_loop envs url max_retries attempt (Suc remaining) =
     (case run_attempt (envs attempt) url of
        (True, tr) \<Rightarrow> (True, tr)
      | (False, tr) \<Rightarrow>
          (case attempt_loop envs url max_retries (Suc attempt) remaining of
             (r, rest) \<Rightarrow>
               (r, tr @ (if attempt < max_retries then [Sleep 10] else []) @ rest)))"

definition wake_up_streamlit_app :: "(nat \<Rightarrow> attempt_env) \<Rightarrow> string \<Rightarrow> nat \<Rightarrow> bool \<times> action list" where
  "wake_up_streamlit_app envs url max_retries = attempt_loop envs url max_retries 1 max_retries"

subsection \<open>Example records\<close>

text \<open>The record of the end-to-end scenarios, and the same record entered in reverse order.\<close>

definition scenario_record :: "real pydict" where
  "scenario_record =
     [(''daydurG'', 12), (''healthR'', 5), (''age_G'', 60), (''adlR'', 0), (''caredurG'', 10),
      (''healthG'', 5), (''ageR'', 70), (''adlG'', 0), (''hukou_cityR'', 1), (''is_citycentre'', 1)]"

definition scenario_record_reordered :: "real pydict" where
  "scenario_record_reordered =
     [(''is_citycentre'', 1), (''hukou_cityR'', 1), (''adlG'', 0), (''ageR'', 70), (''healthG'', 5),
      (''caredurG'', 10), (''adlR'', 0), (''age_G'', 60), (''healthR'', 5), (''daydurG'', 12)]"

text \<open>
  A threshold file and what \<^verbatim>\<open>json.load\<close> makes of it, and a file system holding it
  beside a truncated file, for the examples.
\<close>

definition threshold_text :: string where
  \<open>threshold_text =
     ''{"XGBoost": 0.375, "SVM": 1, "NaiveBayes": null, "Forest": {"threshold": 0.25}}''\<close>

definition threshold_items :: "(string \<times> json) list" where
  "threshold_items =
     [(''XGBoost'', JFloat (3 / 8)), (''SVM'', JInt 1), (''NaiveBayes'', JNull),
      (''Forest'', JObj [(''threshold'', JFloat (1 / 4))])]"

definition example_fs :: fs_env where
  \<open>example_fs =
     \<lparr>path_exists = (\<lambda>p. p = ''models/best_thresholds.json'' \<or> p = ''models/broken.json''),
      read_text =
        (\<lambda>p. if p = ''models/best_thresholds.json'' then Inr threshold_text
             else if p = ''models/broken.json'' then Inr ''{"XGBoost": ''
             else Inl (OSError ''No such file or directory'')),
      json_loads =
        (\<lambda>s. if s = threshold_text then Inr (JObj threshold_items)
             else Inl (JSONDecodeError ''Expecting value'')),
      float_of_str = (\<lambda>s. None)\<rparr>\<close>

subsection \<open>Example models\<close>

text \<open>
  Three duck-typed models: one with both methods, whose \<^verbatim>\<open>predict_proba\<close> reports a raw
  score and its complement without normalising them; one with a decision function only;
  one with neither method.
\<close>

definition score_model :: model where
  "score_model =
     \<lparr>predict_proba_method = Some (\<lambda>X. Inr (map (\<lambda>r. [1 - sum_list r, sum_list r]) X)),
      decision_function_method = Some (\<lambda>X. Inr (map sum_list X))\<rparr>"

definition margin_model :: model where
  "margin_model =
     \<lparr>predict_proba_method = None,
      decision_function_method = Some (\<lambda>X. Inr (map sum_list X))\<rparr>"

definition bare_model :: model where
  "bare_model = \<lparr>predict_proba_method = None, decision_function_method = None\<rparr>"

subsection \<open>Example explainer outputs\<close>

text \<open>
  Per-class arrays for one record of ten features, and the three-dimensional array
  (one record, ten features, two outputs) that holds both classes interleaved.
\<close>

definition class0_array :: ndarray where
  "class0_array = NDArray [1, 10] [- 1, - 2, - 3, - 4, - 5, - 6, - 7, - 8, - 9, - 10]"

definition class1_array :: ndarray where
  "class1_array = NDArray [1, 10] [1, 2, 3, 4, 5, 6, 7, 8, 9, 10]"

definition multi_output_array :: ndarray where
  "multi_output_array =
     NDArray [1, 10, 2]
       [- 1, 1, - 2, 2, - 3, 3, - 4, 4, - 5, 5, - 6, 6, - 7, 7, - 8, 8, - 9, 9, - 10, 10]"

subsection \<open>Example application\<close>

text \<open>
  A classifier that reports a fixed probability, and an application around it whose model
  is not a calibrated wrapper, so that unwrapping it for the explainer raises.
\<close>

definition fixed_model :: "real \<Rightarrow> model" where
  "fixed_model p =
     \<lparr>predict_proba_method = Some (\<lambda>X. Inr (map (\<lambda>r. [1 - p, p]) X)),
      decision_function_method = None\<rparr>"

definition uncalibrated_app :: app_env where
  "uncalibrated_app =
     \<lparr>preprocessor_transform = (\<lambda>df. Inr (rows df)),
      app_model = fixed_model (30 / 100),
      shap_explain =
        (\<lambda>X. Inl (AttributeError
                   ''object has no attribute calibrated_classifiers_'')),
      render_waterfall = (\<lambda>v b. None)\<rparr>"

subsection \<open>Example browser sessions\<close>

text \<open>
  Two attempts that find the resume button, which stays on the page: in the first the click
  returns and the wait for the button to go times out; in the second the click itself
  raises \<^verbatim>\<open>TimeoutException\<close>.
\<close>

definition asleep_stuck :: attempt_env where
  "asleep_stuck =
     \<lparr>create_driver = None, driver_get = None, find_button = None, click_button = None,
      button_gone = Some TimeoutException, driver_quit = None\<rparr>"

definition click_times_out :: attempt_env where
  "click_times_out =
     \<lparr>create_driver = None, driver_get = None, find_button = None,
      click_button = Some TimeoutException, button_gone = Some TimeoutException,
      driver_quit = None\<rparr>"

section \<open>Properties\<close>

subsection \<open>Double-precision arithmetic\<close>

lemma round_half_even_near: "\<bar>real_of_int (round_half_even y) - y\<bar> \<le> 1 / 2"
  unfolding round_half_even_def Let_def by (auto; linarith)

lemma round_half_even_nonneg: "0 \<le> y \<Longrightarrow> 0 \<le> round_half_even y"
  unfolding round_half_even_def Let_def by auto

text \<open>Rounding to a double: the error is at most half the spacing of the doubles there.\<close>

lemma bit_length_bounds:
  "0 < n \<Longrightarrow> 2 ^ (bit_length n - 1) \<le> n \<and> n < 2 ^ bit_length n"
proof (induction n rule: bit_length.induct)
  case (1 n)
  show ?case
  proof (cases "n div 2 = 0")
    case True
    with "1.prems" have "n = 1" by auto
    then show ?thesis
      by (simp add: bit_length.simps [of "Suc 0"] bit_length.simps [of 0])
  next
    case False
    with 1 have ih: "2 ^ (bit_length (n div 2) - 1) \<le> n div 2" "n div 2 < 2 ^ bit_length (n div 2)"
      by auto
    from False have pos: "0 < bit_length (n div 2)"
      by (subst bit_length.simps) simp
    have bl: "bit_length n = Suc (bit_length (n div 2))"
      using "1.prems" by (subst bit_length.simps) simp
    have "2 ^ (bit_length n - 1) = 2 * 2 ^ (bit_length (n div 2) - 1)"
      using pos by (simp add: bl power_Suc [symmetric] del: power_Suc)
    also have "\<dots> \<le> 2 * (n div 2)" using ih(1) by simp
    also have "\<dots> \<le> n" by simp
    finally have lo: "2 ^ (bit_length n - 1) \<le> n" .
    have "n < 2 * (n div 2) + 2" by arith
    also have "\<dots> \<le> 2 * 2 ^ bit_length (n div 2)" using ih(2) by simp
    finally have "n < 2 ^ bit_length n" by (simp add: bl)
    with lo show ?thesis by simp
  qed
qed

lemma pow2_pos: "0 < pow2 k"
  by (simp add: pow2_def)

lemma pow2_powr: "pow2 k = 2 powr real_of_int k"
proof (cases "0 \<le> k")
  case True
  then have "2 powr real_of_int k = 2 powr real (nat k)" by simp
  also have "\<dots> = 2 ^ nat k" by (rule powr_realpow) simp
  finally show ?thesis using True by (simp add: pow2_def)
next
  case False
  then have "2 powr real_of_int k = 2 powr (- real (nat (- k)))" by simp
  also have "\<dots> = 1 / 2 powr real (nat (- k))" by (simp add: powr_minus_divide)
  also have "2 powr real (nat (- k)) = 2 ^ nat (- k)" by (rule powr_realpow) simp
  finally show ?thesis using False by (simp add: pow2_def)
qed

lemma pow2_diff: "pow2 (a - b) = pow2 a / pow2 b"
  by (simp add: pow2_powr powr_diff)

lemma bit_length_pos: "0 < n \<Longrightarrow> 0 < bit_length n"
  by (subst bit_length.simps) simp

lemma pow2_int: "pow2 (int b) = 2 ^ b"
  by (simp add: pow2_def)

lemma pow2_neg_int: "pow2 (- int b) = 1 / 2 ^ b"
  by (cases "b = 0") (simp_all add: pow2_def)

lemma pow2_ilog2_le:
  assumes "0 < x"
  shows "pow2 (ilog2 x) \<le> x"
proof (cases "1 \<le> x")
  case True
  define n where "n = nat \<lfloor>x\<rfloor>"
  define b where "b = bit_length n"
  from True have n: "0 < n" by (simp add: n_def)
  from bit_length_pos [OF n] have b: "0 < b" by (simp add: b_def)
  have "ilog2 x = int (b - 1)"
    using True b by (simp add: ilog2_def n_def b_def of_nat_diff)
  then have "pow2 (ilog2 x) = 2 ^ (b - 1)"
    by (simp only: pow2_int)
  also have "\<dots> = real (2 ^ (b - 1))" by simp
  also have "\<dots> \<le> real n"
    using bit_length_bounds [OF n] unfolding b_def by (intro of_nat_mono) blast
  also have "\<dots> \<le> x" using True by (simp add: n_def)
  finally show ?thesis .
next
  case False
  define k where "k = \<lceil>1 / x\<rceil>"
  define m where "m = nat (k - 1)"
  define b where "b = bit_length m"
  from False assms have "1 < 1 / x" by simp
  then have c: "2 \<le> k" unfolding k_def by linarith
  then have m: "0 < m" by (simp add: m_def)
  have "1 / x \<le> real_of_int k" by (simp add: k_def)
  also have "\<dots> = real (Suc m)" using c by (simp add: m_def)
  also have "\<dots> \<le> real (2 ^ b)"
    using bit_length_bounds [OF m] unfolding b_def by (intro of_nat_mono) simp
  finally have "1 / x \<le> 2 ^ b" by simp
  then have "1 / 2 ^ b \<le> x"
    using assms by (simp add: field_simps)
  moreover have "ilog2 x = - int b"
    using False by (simp add: ilog2_def m_def b_def k_def)
  ultimately show ?thesis by (simp only: pow2_neg_int)
qed

lemma double_ulp_pos: "0 < double_ulp x"
  by (simp add: double_ulp_def pow2_pos)

lemma double_ulp_le:
  assumes "x \<noteq> 0"
  shows "double_ulp x \<le> max (\<bar>x\<bar> / 2 ^ 52) (1 / 2 ^ 1074)"
proof (cases "- 1022 \<le> ilog2 \<bar>x\<bar>")
  case True
  then have "double_ulp x = pow2 (ilog2 \<bar>x\<bar> - 52)"
    by (simp add: double_ulp_def max_def)
  also have "\<dots> = pow2 (ilog2 \<bar>x\<bar>) / 2 ^ 52"
    by (simp add: pow2_diff pow2_int [of 52, simplified])
  also have "\<dots> \<le> \<bar>x\<bar> / 2 ^ 52"
    using pow2_ilog2_le [of "\<bar>x\<bar>"] assms by (intro divide_right_mono) simp_all
  finally show ?thesis by simp
next
  case False
  then have "double_ulp x = pow2 (- 1074)"
    by (simp add: double_ulp_def max_def)
  also have "\<dots> = 1 / 2 ^ 1074"
    using pow2_neg_int [of 1074] by simp
  finally show ?thesis by simp
qed

lemma round_to_double_near: "\<bar>round_to_double x - x\<bar> \<le> double_ulp x / 2"
proof (cases "x = 0")
  case True
  then show ?thesis using double_ulp_pos [of 0] by (simp add: round_to_double_def)
next
  case False
  let ?u = "double_ulp x"
  have u: "0 < ?u" by (rule double_ulp_pos)
  have "round_to_double x - x = (real_of_int (round_half_even (x / ?u)) - x / ?u) * ?u"
    using False u by (simp add: round_to_double_def field_simps)
  then have "\<bar>round_to_double x - x\<bar> = \<bar>real_of_int (round_half_even (x / ?u)) - x / ?u\<bar> * ?u"
    using u by (simp add: abs_mult)
  also have "\<dots> \<le> (1 / 2) * ?u"
    using round_half_even_near [of "x / ?u"] u by (intro mult_right_mono) simp_all
  finally show ?thesis by simp
qed

lemma round_to_double_error:
  "\<bar>round_to_double x - x\<bar> \<le> max (\<bar>x\<bar> / 2 ^ 53) (1 / 2 ^ 1075)"
proof (cases "x = 0")
  case True
  then show ?thesis by (simp add: round_to_double_def)
next
  case False
  have "\<bar>round_to_double x - x\<bar> \<le> double_ulp x / 2"
    by (rule round_to_double_near)
  also have "\<dots> \<le> max (\<bar>x\<bar> / 2 ^ 52) (1 / 2 ^ 1074) / 2"
    using double_ulp_le [OF False] by (intro divide_right_mono) simp_all
  also have "\<dots> = max (\<bar>x\<bar> / 2 ^ 53) (1 / 2 ^ 1075)"
    by (simp add: max_def field_simps)
  finally show ?thesis .
qed

lemma bit_length_eval:
  "bit_length (numeral k) = Suc (bit_length (numeral k div 2))"
  "bit_length 0 = 0"
  "bit_length (Suc 0) = 1"
  by (subst bit_length.simps, simp)+

lemmas double_eval =
  float_mul_def round_to_double_def double_ulp_def ilog2_def pow2_def round_half_even_def
  Let_def bit_length_eval

subsection \<open>Label and threshold\<close>

text \<open>
  Claim C1. For every probability \<open>p\<close> and threshold \<open>t\<close> the label is High exactly when
  \<open>p \<ge> t\<close> and Low exactly when \<open>p < t\<close>, for the label of \<open>risk_narrative\<close> and for the
  numeric label \<open>int(prob >= thr)\<close> alike; at \<open>p = t = 0.50\<close> the label is High.
\<close>

theorem label_high_iff_ge:
  "(fst (risk_narrative p t) = ''High stress risk'' \<longleftrightarrow> t \<le> p)
   \<and> (fst (risk_narrative p t) = ''Low stress risk'' \<longleftrightarrow> p < t)
   \<and> (pred p t = 1 \<longleftrightarrow> t \<le> p)
   \<and> (pred p t = 0 \<longleftrightarrow> p < t)
   \<and> fst (risk_narrative (50 / 100) (50 / 100)) = ''High stress risk''
   \<and> pred (50 / 100) (50 / 100) = 1"
  by (simp add: risk_narrative_def pred_def Let_def not_le)

text \<open>
  Claim C10. For every probability and threshold the numeric label is 1 exactly when
  \<open>risk_narrative\<close> returns the label "High stress risk" and 0 exactly when it returns
  "Low stress risk". On the page the label is shown in the error styling exactly when the
  numeric label is 1 and in the success styling exactly when it is 0, and the metric
  "Predicted label" shows that number: the three never disagree.
\<close>

theorem pred_agrees_with_label:
  "(pred prob thr = 1 \<longleftrightarrow> fst (risk_narrative prob thr) = ''High stress risk'')
   \<and> (pred prob thr = 0 \<longleftrightarrow> fst (risk_narrative prob thr) = ''Low stress risk'')
   \<and> (StError l \<in> set (result_events prob thr)
        \<longleftrightarrow> pred prob thr = 1 \<and> l = fst (risk_narrative prob thr))
   \<and> (StSuccess l \<in> set (result_events prob thr)
        \<longleftrightarrow> pred prob thr = 0 \<and> l = fst (risk_narrative prob thr))
   \<and> (Metric ''Predicted label'' s \<in> set (result_events prob thr)
        \<longleftrightarrow> s = (if fst (risk_narrative prob thr) = ''High stress risk'' then ''1'' else ''0''))"
  by (auto simp: risk_narrative_def pred_def Let_def result_events_def str_int_def
        show_nat.simps digit_char_def)

subsection \<open>Record builder\<close>

lemma those_map_Some:
  "(\<And>x. x \<in> set xs \<Longrightarrow> f x \<noteq> None) \<Longrightarrow> those (map f xs) = Some (map (\<lambda>x. the (f x)) xs)"
  by (induction xs) (auto split: option.splits)

lemma cell_record: "cell (map fst d) (map snd d) c = map_of d c"
  by (simp add: cell_def zip_map_fst_snd)

lemma select_columns_record:
  assumes "set cols \<subseteq> fst ` set d"
  shows "select_columns (dataframe_of_record d) cols =
           Inr \<lparr>columns = cols, rows = [map (\<lambda>c. the (map_of d c)) cols]\<rparr>"
proof -
  have no_missing: "\<not> list_ex (\<lambda>c. c \<notin> set (columns (dataframe_of_record d))) cols"
    using assms by (auto simp: dataframe_of_record_def list_ex_iff)
  have row: "those (map (cell (map fst d) (map snd d)) cols) = Some (map (\<lambda>c. the (map_of d c)) cols)"
    using assms by (subst those_map_Some) (auto simp: cell_record map_of_eq_None_iff)
  show ?thesis
    unfolding select_columns_def using no_missing row
    by (simp add: dataframe_of_record_def)
qed

lemma ensure_complete:
  assumes "set cols \<subseteq> fst ` set d"
  shows "ensure_feature_dataframe d cols =
           Inr \<lparr>columns = cols, rows = [map (\<lambda>c. the (map_of d c)) cols]\<rparr>"
proof -
  have "filter (\<lambda>c. c \<notin> set (columns (dataframe_of_record d))) cols = []"
    using assms by (auto simp: dataframe_of_record_def filter_empty_conv)
  then show ?thesis
    by (simp add: ensure_feature_dataframe_def Let_def select_columns_record [OF assms])
qed

lemma ensure_missing:
  assumes "\<not> set cols \<subseteq> fst ` set d"
  shows "ensure_feature_dataframe d cols =
           Inl (ValueError (''Missing required features: ''
                  @ py_repr_list (filter (\<lambda>c. c \<notin> fst ` set d) cols)))"
proof -
  have "filter (\<lambda>c. c \<notin> fst ` set d) cols \<noteq> []"
    using assms by (auto simp: filter_empty_conv)
  then show ?thesis
    by (simp add: ensure_feature_dataframe_def Let_def dataframe_of_record_def)
qed

lemma quoted_outside_skip:
  "CHR 0x27 \<notin> set s \<Longrightarrow> quoted_names False acc (s @ rest) = quoted_names False acc rest"
  by (induction s arbitrary: acc) auto

lemma quoted_inside_collect:
  "CHR 0x27 \<notin> set s \<Longrightarrow> quoted_names True acc (s @ rest) = quoted_names True (rev s @ acc) rest"
  by (induction s arbitrary: acc) auto

lemma quoted_outside_acc:
  "quoted_names False acc s = quoted_names False [] s"
  by (induction s arbitrary: acc) auto

lemma quoted_repr_str:
  "CHR 0x27 \<notin> set x \<Longrightarrow>
     quoted_names False acc (py_repr_str x @ rest) = x # quoted_names False [] rest"
  by (simp add: py_repr_str_def quoted_inside_collect)

lemma quoted_join:
  "(\<And>x. x \<in> set xs \<Longrightarrow> CHR 0x27 \<notin> set x) \<Longrightarrow>
     quoted_names False acc (join '', '' (map py_repr_str xs) @ rest)
       = xs @ quoted_names False [] rest"
proof (induction xs arbitrary: acc)
  case Nil
  then show ?case by (simp add: quoted_outside_acc [of acc])
next
  case (Cons x xs)
  show ?case
  proof (cases xs)
    case Nil
    then show ?thesis using Cons.prems by (simp add: quoted_repr_str)
  next
    case (Cons y ys)
    have "quoted_names False acc (join '', '' (map py_repr_str (x # xs)) @ rest)
          = quoted_names False acc (py_repr_str x @ ('', '' @ join '', '' (map py_repr_str xs) @ rest))"
      using Cons by simp
    also have "\<dots> = x # quoted_names False [] ('', '' @ join '', '' (map py_repr_str xs) @ rest)"
      using Cons.prems by (simp add: quoted_repr_str)
    also have "\<dots> = x # quoted_names False [] (join '', '' (map py_repr_str xs) @ rest)"
      by (subst quoted_outside_skip) auto
    also have "\<dots> = x # xs @ quoted_names False [] rest"
      using Cons.IH Cons.prems by simp
    finally show ?thesis by simp
  qed
qed

lemma names_in_repr_list:
  "(\<And>x. x \<in> set xs \<Longrightarrow> CHR 0x27 \<notin> set x) \<Longrightarrow> names_in_message (py_repr_list xs) = xs"
  unfolding names_in_message_def py_repr_list_def
  using quoted_join [of xs "[]" "'']''"] by simp

lemma final_features_plain: "x \<in> set FINAL_FEATURES \<Longrightarrow> CHR 0x27 \<notin> set x"
  by (auto simp: FINAL_FEATURES_def)

lemma perm_same_map:
  assumes "mset d' = mset d" "distinct (map fst d)"
  shows "map_of d' = map_of d"
proof -
  have "mset (map fst d') = mset (map fst d)" using assms(1) by simp
  then have "distinct (map fst d')" using assms(2) by (metis mset_eq_imp_distinct_iff)
  moreover have "set d' = set d" using assms(1) by (metis mset_eq_setD)
  ultimately show ?thesis using assms(2) by (simp add: map_of_inject_set)
qed

lemma ensure_same_keys:
  assumes "map_of d' = map_of d"
  shows "ensure_feature_dataframe d' cols = ensure_feature_dataframe d cols"
proof -
  have keys: "fst ` set d' = fst ` set d"
    using assms by (metis dom_map_of_conv_image_fst)
  show ?thesis
  proof (cases "set cols \<subseteq> fst ` set d")
    case True
    then show ?thesis using keys assms by (simp add: ensure_complete)
  next
    case False
    then show ?thesis using keys by (simp add: ensure_missing)
  qed
qed

text \<open>
  Claim C5. For every input mapping that omits one or more of the ten required feature
  names, \<open>ensure_feature_dataframe\<close> fails with the "Missing required features" error;
  the names its message shows are exactly the absent keys, all of them, in schema order;
  no data frame is returned, so no default stands in for a missing key.
\<close>

theorem missing_features_named:
  assumes "\<not> set FINAL_FEATURES \<subseteq> fst ` set input_dict"
  shows "\<exists>msg. ensure_feature_dataframe input_dict FINAL_FEATURES
                  = Inl (ValueError (''Missing required features: '' @ msg))
           \<and> names_in_message msg = filter (\<lambda>c. c \<notin> fst ` set input_dict) FINAL_FEATURES
           \<and> set (names_in_message msg) = set FINAL_FEATURES - fst ` set input_dict
           \<and> names_in_message msg \<noteq> []"
proof -
  let ?missing = "filter (\<lambda>c. c \<notin> fst ` set input_dict) FINAL_FEATURES"
  have names: "names_in_message (py_repr_list ?missing) = ?missing"
    by (rule names_in_repr_list) (simp add: final_features_plain)
  have nonempty: "?missing \<noteq> []"
    using assms by (auto simp: filter_empty_conv)
  have "set ?missing = set FINAL_FEATURES - fst ` set input_dict"
    by auto
  with names nonempty ensure_missing [OF assms] show ?thesis
    by (intro exI [of _ "py_repr_list ?missing"]) simp
qed

theorem missing_features_named_witness:
  "\<not> set FINAL_FEATURES \<subseteq> fst ` set (take 8 scenario_record)
   \<and> (\<exists>msg. ensure_feature_dataframe (take 8 scenario_record) FINAL_FEATURES
                 = Inl (ValueError (''Missing required features: '' @ msg))
          \<and> names_in_message msg = [''hukou_cityR'', ''is_citycentre''])
   \<and> ensure_feature_dataframe (take 8 scenario_record) FINAL_FEATURES
       = Inl (ValueError ''Missing required features: ['hukou_cityR', 'is_citycentre']'')"
proof -
  have h: "\<not> set FINAL_FEATURES \<subseteq> fst ` set (take 8 scenario_record)"
    by (simp add: FINAL_FEATURES_def scenario_record_def)
  have m: "filter (\<lambda>c. c \<notin> fst ` set (take 8 scenario_record)) FINAL_FEATURES
             = [''hukou_cityR'', ''is_citycentre'']"
    by (simp add: FINAL_FEATURES_def scenario_record_def)
  have v: "ensure_feature_dataframe (take 8 scenario_record) FINAL_FEATURES
       = Inl (ValueError ''Missing required features: ['hukou_cityR', 'is_citycentre']'')"
    by (simp add: ensure_missing [OF h] m py_repr_list_def py_repr_str_def)
  show ?thesis
    using missing_features_named [OF h] h m v by simp
qed

lemma ensure_complete_row:
  assumes "set cols \<subseteq> fst ` set d"
  shows "map Some (map (\<lambda>c. the (map_of d c)) cols) = map (map_of d) cols"
proof -
  have "Some (the (map_of d c)) = map_of d c" if "c \<in> set cols" for c
  proof -
    from that assms have "map_of d c \<noteq> None"
      by (auto simp: map_of_eq_None_iff)
    then show ?thesis by auto
  qed
  then show ?thesis
    by (induction cols) auto
qed

text \<open>
  Claim C6. For every input mapping containing all ten required feature names,
  \<open>ensure_feature_dataframe\<close> returns a single-row table whose columns are
  \<open>FINAL_FEATURES\<close> in that order, each cell the value the mapping gives the name;
  entering the same items in another order gives the same table.
\<close>

theorem schema_column_order:
  assumes "set FINAL_FEATURES \<subseteq> fst ` set input_dict"
  shows "(\<exists>row. ensure_feature_dataframe input_dict FINAL_FEATURES
                  = Inr \<lparr>columns = FINAL_FEATURES, rows = [row]\<rparr>
            \<and> map Some row = map (map_of input_dict) FINAL_FEATURES)
         \<and> (\<forall>d'. mset d' = mset input_dict \<and> distinct (map fst input_dict) \<longrightarrow>
                ensure_feature_dataframe d' FINAL_FEATURES
                  = ensure_feature_dataframe input_dict FINAL_FEATURES)"
proof (intro conjI allI impI)
  show "\<exists>row. ensure_feature_dataframe input_dict FINAL_FEATURES
                  = Inr \<lparr>columns = FINAL_FEATURES, rows = [row]\<rparr>
            \<and> map Some row = map (map_of input_dict) FINAL_FEATURES"
    using ensure_complete [OF assms] ensure_complete_row [OF assms]
    by (intro exI [of _ "map (\<lambda>c. the (map_of input_dict c)) FINAL_FEATURES"] conjI)
next
  fix d' :: "'a pydict"
  assume a: "mset d' = mset input_dict \<and> distinct (map fst input_dict)"
  have "map_of d' = map_of input_dict"
    by (rule perm_same_map) (use a in blast)+
  then show "ensure_feature_dataframe d' FINAL_FEATURES
               = ensure_feature_dataframe input_dict FINAL_FEATURES"
    by (rule ensure_same_keys)
qed

theorem schema_column_order_witness:
  "set FINAL_FEATURES \<subseteq> fst ` set scenario_record
   \<and> ensure_feature_dataframe scenario_record FINAL_FEATURES
       = Inr \<lparr>columns = FINAL_FEATURES, rows = [[12, 5, 60, 0, 10, 5, 70, 0, 1, 1]]\<rparr>
   \<and> ensure_feature_dataframe scenario_record_reordered FINAL_FEATURES
       = Inr \<lparr>columns = FINAL_FEATURES, rows = [[12, 5, 60, 0, 10, 5, 70, 0, 1, 1]]\<rparr>"
proof -
  have h: "set FINAL_FEATURES \<subseteq> fst ` set scenario_record"
    by (simp add: FINAL_FEATURES_def scenario_record_def)
  have r: "scenario_record_reordered = rev scenario_record"
    by (simp add: scenario_record_def scenario_record_reordered_def)
  have p: "mset scenario_record_reordered = mset scenario_record"
    by (simp add: r)
  have d: "distinct (map fst scenario_record)"
    by (simp add: scenario_record_def)
  have m: "map (map_of scenario_record) FINAL_FEATURES
             = map Some [12, 5, 60, 0, 10, 5, 70, 0, 1, 1]"
    by (simp add: FINAL_FEATURES_def scenario_record_def)
  note t = schema_column_order [OF h]
  from t obtain row where
    e: "ensure_feature_dataframe scenario_record FINAL_FEATURES
          = Inr \<lparr>columns = FINAL_FEATURES, rows = [row]\<rparr>"
    and v: "map Some row = map (map_of scenario_record) FINAL_FEATURES"
    by (elim conjE exE)
  from t have "mset scenario_record_reordered = mset scenario_record
        \<and> distinct (map fst scenario_record) \<longrightarrow>
      ensure_feature_dataframe scenario_record_reordered FINAL_FEATURES
              = ensure_feature_dataframe scenario_record FINAL_FEATURES"
    by (elim conjE allE [of _ scenario_record_reordered])
  with p d have s: "ensure_feature_dataframe scenario_record_reordered FINAL_FEATURES
              = ensure_feature_dataframe scenario_record FINAL_FEATURES"
    by (elim impE) (intro conjI)
  from v m have "map Some row = map Some [12, 5, 60, 0, 10, 5, 70, 0, 1, 1]"
    by (rule trans)
  then have "row = [12, 5, 60, 0, 10, 5, 70, 0, 1, 1]"
    by (rule map_injective) (rule inj_Some)
  with e have e': "ensure_feature_dataframe scenario_record FINAL_FEATURES
       = Inr \<lparr>columns = FINAL_FEATURES, rows = [[12, 5, 60, 0, 10, 5, 70, 0, 1, 1]]\<rparr>"
    by (rule_tac trans) simp_all
  show ?thesis
    by (intro conjI h e' trans [OF s e'])
qed

subsection \<open>Threshold loader\<close>

lemma example_fs_file:
  "path_exists example_fs ''models/best_thresholds.json''"
  "read_text example_fs ''models/best_thresholds.json'' = Inr threshold_text"
  "json_loads example_fs threshold_text = Inr (JObj threshold_items)"
  by (simp_all add: example_fs_def)

lemma threshold_items_lookup:
  "map_of threshold_items ''XGBoost'' = Some (JFloat (3 / 8))"
  "map_of threshold_items ''SVM'' = Some (JInt 1)"
  "map_of threshold_items ''NaiveBayes'' = Some JNull"
  "map_of threshold_items ''LightGBM'' = None"
  "map_of threshold_items ''Forest'' = Some (JObj [(''threshold'', JFloat (1 / 4))])"
  by (simp_all add: threshold_items_def)

lemma load_threshold_stored:
  assumes "path_exists env path" and "read_text env path = Inr contents"
    and "json_loads env contents = Inr (JObj kvs)" and "map_of kvs key = Some v"
  shows "load_threshold env path key dflt
           = (case py_float env v of Inr r \<Rightarrow> Inr r | Inl e \<Rightarrow> Inr dflt)"
  using assms by (simp add: load_threshold_def load_threshold_body_def dict_get_def)

text \<open>
  Claim C4 as written says the stored value is returned whenever the file exists and is
  well-formed JSON containing the key. The fallback is wider: a file that contains the key
  with a value \<^verbatim>\<open>float\<close> rejects, here a nested object, gives the default.
\<close>

theorem load_threshold_counterexample:
  "path_exists example_fs ''models/best_thresholds.json''
   \<and> read_text example_fs ''models/best_thresholds.json'' = Inr threshold_text
   \<and> json_loads example_fs threshold_text = Inr (JObj threshold_items)
   \<and> map_of threshold_items ''Forest'' = Some (JObj [(''threshold'', JFloat (1 / 4))])
   \<and> load_threshold example_fs ''models/best_thresholds.json'' ''Forest'' (1 / 2) = Inr (1 / 2)"
  using load_threshold_stored [OF example_fs_file threshold_items_lookup(5), of "1 / 2"]
  by (simp add: example_fs_file threshold_items_lookup py_float_def)

text \<open>
  Claim C4, amended. For every path, key and file contents: when the file exists and holds a
  JSON object containing the key, \<open>load_threshold\<close> returns the float of the stored value
  if it has one (a float as it is, an integer as the nearest double, true and false as 1
  and 0, a string as the number it spells) and the default if it has none (null, an array,
  an object, a string that spells no number, an integer beyond the largest double). It
  returns the default (0.5 at the call that sets \<^verbatim>\<open>BEST_THRESHOLD\<close>) when the file is
  missing or cannot be read, when the JSON is malformed or is not an object, and when the
  key is absent. It returns a value in every case and never raises.
\<close>

theorem load_threshold_value_or_default:
  "(path_exists env path \<and> read_text env path = Inr contents
      \<and> json_loads env contents = Inr (JObj kvs) \<and> map_of kvs key = Some v
      \<longrightarrow> load_threshold env path key dflt
            = Inr (case v of
                     JFloat r \<Rightarrow> r
                   | JInt n \<Rightarrow>
                       if \<bar>n\<bar> < 2 ^ 1024 - 2 ^ 970 then round_to_double (of_int n) else dflt
                   | JBool b \<Rightarrow> if b then 1 else 0
                   | JStr s \<Rightarrow> (case float_of_str env s of Some r \<Rightarrow> r | None \<Rightarrow> dflt)
                   | JNull \<Rightarrow> dflt
                   | JArr xs \<Rightarrow> dflt
                   | JObj m \<Rightarrow> dflt))
   \<and> (\<not> path_exists env path \<longrightarrow> load_threshold env path key dflt = Inr dflt)
   \<and> (read_text env path = Inr contents \<and> json_loads env contents = Inr (JObj kvs)
        \<and> map_of kvs key = None
      \<longrightarrow> load_threshold env path key dflt = Inr dflt)
   \<and> (read_text env path = Inr contents \<and> json_loads env contents = Inr d
        \<and> (\<forall>m. d \<noteq> JObj m)
      \<longrightarrow> load_threshold env path key dflt = Inr dflt)
   \<and> (read_text env path = Inr contents \<and> json_loads env contents = Inl e
      \<longrightarrow> load_threshold env path key dflt = Inr dflt)
   \<and> (read_text env path = Inl e \<longrightarrow> load_threshold env path key dflt = Inr dflt)
   \<and> (\<exists>r. load_threshold env path key dflt = Inr r)"
proof (intro conjI impI)
  assume "path_exists env path \<and> read_text env path = Inr contents
      \<and> json_loads env contents = Inr (JObj kvs) \<and> map_of kvs key = Some v"
  then show "load_threshold env path key dflt
            = Inr (case v of
                     JFloat r \<Rightarrow> r
                   | JInt n \<Rightarrow>
                       if \<bar>n\<bar> < 2 ^ 1024 - 2 ^ 970 then round_to_double (of_int n) else dflt
                   | JBool b \<Rightarrow> if b then 1 else 0
                   | JStr s \<Rightarrow> (case float_of_str env s of Some r \<Rightarrow> r | None \<Rightarrow> dflt)
                   | JNull \<Rightarrow> dflt
                   | JArr xs \<Rightarrow> dflt
                   | JObj m \<Rightarrow> dflt)"
    by (cases v)
       (simp_all add: load_threshold_def load_threshold_body_def dict_get_def py_float_def
          split: option.splits)
next
  assume "\<not> path_exists env path"
  then show "load_threshold env path key dflt = Inr dflt"
    by (simp add: load_threshold_def)
next
  assume "read_text env path = Inr contents \<and> json_loads env contents = Inr (JObj kvs)
        \<and> map_of kvs key = None"
  then show "load_threshold env path key dflt = Inr dflt"
    by (simp add: load_threshold_def load_threshold_body_def dict_get_def py_float_def)
next
  assume "read_text env path = Inr contents \<and> json_loads env contents = Inr d
        \<and> (\<forall>m. d \<noteq> JObj m)"
  then show "load_threshold env path key dflt = Inr dflt"
    by (cases d) (simp_all add: load_threshold_def load_threshold_body_def dict_get_def)
next
  assume "read_text env path = Inr contents \<and> json_loads env contents = Inl e"
  then show "load_threshold env path key dflt = Inr dflt"
    by (simp add: load_threshold_def load_threshold_body_def)
next
  assume "read_text env path = Inl e"
  then show "load_threshold env path key dflt = Inr dflt"
    by (simp add: load_threshold_def load_threshold_body_def)
next
  show "\<exists>r. load_threshold env path key dflt = Inr r"
    by (simp add: load_threshold_def split: sum.splits)
qed

theorem load_threshold_value_or_default_witness:
  "load_threshold example_fs ''models/best_thresholds.json'' ''XGBoost'' (1 / 2) = Inr (3 / 8)
   \<and> load_threshold example_fs ''models/best_thresholds.json'' ''SVM'' (1 / 2) = Inr 1
   \<and> load_threshold example_fs ''models/best_thresholds.json'' ''NaiveBayes'' (1 / 2) = Inr (1 / 2)
   \<and> load_threshold example_fs ''models/best_thresholds.json'' ''Forest'' (1 / 2) = Inr (1 / 2)
   \<and> load_threshold example_fs ''models/best_thresholds.json'' ''LightGBM'' (1 / 2) = Inr (1 / 2)
   \<and> load_threshold example_fs ''models/absent.json'' ''XGBoost'' (1 / 2) = Inr (1 / 2)
   \<and> load_threshold example_fs ''models/broken.json'' ''XGBoost'' (1 / 2) = Inr (1 / 2)"
proof -
  note f = example_fs_file
  note k = threshold_items_lookup
  have g: "\<not> path_exists example_fs ''models/absent.json''"
    by (simp add: example_fs_def)
  have h: \<open>read_text example_fs ''models/broken.json'' = Inr ''{"XGBoost": ''\<close>
    \<open>json_loads example_fs ''{"XGBoost": '' = Inl (JSONDecodeError ''Expecting value'')\<close>
    by (simp_all add: example_fs_def threshold_text_def)
  have one: "round_to_double (real_of_int 1) = 1"
    by (simp add: double_eval)
  note t = load_threshold_value_or_default
  note stored = t [THEN conjunct1, rule_format]
  have 1: "load_threshold example_fs ''models/best_thresholds.json'' ''XGBoost'' (1 / 2) = Inr (3 / 8)"
    using stored [OF conjI [OF f(1) conjI [OF f(2) conjI [OF f(3) k(1)]]], of "1 / 2"] by simp
  have 2: "load_threshold example_fs ''models/best_thresholds.json'' ''SVM'' (1 / 2) = Inr 1"
    using stored [OF conjI [OF f(1) conjI [OF f(2) conjI [OF f(3) k(2)]]], of "1 / 2"] one by simp
  have 3: "load_threshold example_fs ''models/best_thresholds.json'' ''NaiveBayes'' (1 / 2) = Inr (1 / 2)"
    using stored [OF conjI [OF f(1) conjI [OF f(2) conjI [OF f(3) k(3)]]], of "1 / 2"] by simp
  have 7: "load_threshold example_fs ''models/best_thresholds.json'' ''Forest'' (1 / 2) = Inr (1 / 2)"
    using stored [OF conjI [OF f(1) conjI [OF f(2) conjI [OF f(3) k(5)]]], of "1 / 2"] by simp
  have 4: "load_threshold example_fs ''models/best_thresholds.json'' ''LightGBM'' (1 / 2) = Inr (1 / 2)"
    by (rule t [THEN conjunct2, THEN conjunct2, THEN conjunct1, rule_format,
                OF conjI [OF f(2) conjI [OF f(3) k(4)]]])
  have 5: "load_threshold example_fs ''models/absent.json'' ''XGBoost'' (1 / 2) = Inr (1 / 2)"
    by (rule t [THEN conjunct2, THEN conjunct1, rule_format, OF g])
  have 6: "load_threshold example_fs ''models/broken.json'' ''XGBoost'' (1 / 2) = Inr (1 / 2)"
    by (rule t [THEN conjunct2, THEN conjunct2, THEN conjunct2, THEN conjunct2, THEN conjunct1,
                rule_format, OF conjI [OF h(1) h(2)]])
  show ?thesis
    by (intro conjI 1 2 3 7 4 5 6)
qed

subsection \<open>Probability engine\<close>

lemma logistic_open_unit: "0 < 1 / (1 + exp (- z)) \<and> 1 / (1 + exp (- z)) < (1::real)"
proof -
  have "0 < exp (- z)" by simp
  then show ?thesis by (simp add: field_simps add_pos_pos)
qed

lemma column1_entries:
  assumes "column1 P = Inr ps"
  shows "ps = map (\<lambda>r. r ! 1) P" and "\<forall>r \<in> set P. 2 \<le> length r"
  using assms by (auto simp: column1_def list_all_iff split: if_splits)

text \<open>
  Claim C2 as written says the value returned is always in \<open>[0,1]\<close>. The
  \<^verbatim>\<open>predict_proba\<close> branch returns the model's second column as it is: for a model that
  reports 1.5 there, 1.5 is returned.
\<close>

theorem predict_proba_counterexample:
  "predict_proba score_model [[3 / 2]] = Inr [3 / 2] \<and> \<not> ((3 / 2 :: real) \<le> 1)"
  by (simp add: predict_proba_def score_model_def column1_def)

text \<open>
  Claim C2, amended. For every model and input matrix: if the model has a
  \<^verbatim>\<open>predict_proba\<close> method, the result is the second column of its output, whether or not
  it has a decision function; otherwise, if it has a \<^verbatim>\<open>decision_function\<close>, the result is
  the logistic map \<open>1 / (1 + exp (- z))\<close> of each score; otherwise it fails with the
  unsupported-model error. A value returned through the decision function lies strictly
  between 0 and 1. A value returned through \<^verbatim>\<open>predict_proba\<close> is the model's own, so it
  lies in \<open>[0,1]\<close> whenever the model's output does.
\<close>

theorem predict_proba_priority:
  "(predict_proba_method m = Some f \<and> f X = Inr P \<and> list_all (\<lambda>r. 2 \<le> length r) P
      \<longrightarrow> predict_proba m X = Inr (map (\<lambda>r. r ! 1) P))
   \<and> (predict_proba_method m = None \<and> decision_function_method m = Some g \<and> g X = Inr z
      \<longrightarrow> predict_proba m X = Inr (map (\<lambda>zi. 1 / (1 + exp (- zi))) z))
   \<and> (predict_proba_method m = None \<and> decision_function_method m = None
      \<longrightarrow> predict_proba m X = Inl (RuntimeError ''Model does not support probability outputs''))
   \<and> (predict_proba_method m = None \<and> predict_proba m X = Inr ps
      \<longrightarrow> (\<forall>p \<in> set ps. 0 < p \<and> p < 1))
   \<and> (predict_proba_method m = Some f \<and> f X = Inr P \<and> predict_proba m X = Inr ps
        \<and> (\<forall>r \<in> set P. \<forall>x \<in> set r. 0 \<le> x \<and> x \<le> 1)
      \<longrightarrow> (\<forall>p \<in> set ps. 0 \<le> p \<and> p \<le> 1))"
proof (intro conjI impI)
  assume "predict_proba_method m = Some f \<and> f X = Inr P \<and> list_all (\<lambda>r. 2 \<le> length r) P"
  then show "predict_proba m X = Inr (map (\<lambda>r. r ! 1) P)"
    by (simp add: predict_proba_def column1_def)
next
  assume "predict_proba_method m = None \<and> decision_function_method m = Some g \<and> g X = Inr z"
  then show "predict_proba m X = Inr (map (\<lambda>zi. 1 / (1 + exp (- zi))) z)"
    by (simp add: predict_proba_def)
next
  assume "predict_proba_method m = None \<and> decision_function_method m = None"
  then show "predict_proba m X = Inl (RuntimeError ''Model does not support probability outputs'')"
    by (simp add: predict_proba_def)
next
  assume a: "predict_proba_method m = None \<and> predict_proba m X = Inr ps"
  then obtain g z where "g X = Inr z" "ps = map (\<lambda>zi. 1 / (1 + exp (- zi))) z"
    by (auto simp: predict_proba_def split: option.splits sum.splits)
  then show "\<forall>p \<in> set ps. 0 < p \<and> p < 1"
    using logistic_open_unit by auto
next
  assume a: "predict_proba_method m = Some f \<and> f X = Inr P \<and> predict_proba m X = Inr ps
        \<and> (\<forall>r \<in> set P. \<forall>x \<in> set r. 0 \<le> x \<and> x \<le> 1)"
  then have c: "column1 P = Inr ps"
    by (auto simp: predict_proba_def)
  show "\<forall>p \<in> set ps. 0 \<le> p \<and> p \<le> 1"
  proof
    fix p assume "p \<in> set ps"
    with column1_entries [OF c] obtain r where r: "r \<in> set P" "p = r ! 1" "2 \<le> length r"
      by auto
    then have "p \<in> set r" by simp
    with a r(1) show "0 \<le> p \<and> p \<le> 1" by blast
  qed
qed

theorem predict_proba_priority_witness:
  "predict_proba score_model [[1 / 4, 1 / 2]] = Inr [3 / 4]
   \<and> predict_proba margin_model [[1 / 4, - 1 / 4]] = Inr [1 / 2]
   \<and> predict_proba bare_model [[1 / 4, 1 / 2]]
       = Inl (RuntimeError ''Model does not support probability outputs'')
   \<and> 0 < (1 / 2 :: real) \<and> (1 / 2 :: real) < 1 \<and> 0 \<le> (3 / 4 :: real) \<and> (3 / 4 :: real) \<le> 1"
proof -
  note t = predict_proba_priority
  have 1: "predict_proba score_model [[1 / 4, 1 / 2]] = Inr [3 / 4]"
    using t [of score_model "\<lambda>X. Inr (map (\<lambda>r. [1 - sum_list r, sum_list r]) X)"
                "[[1 / 4, 1 / 2]]" "[[1 / 4, 3 / 4]]", THEN conjunct1]
    by (simp add: score_model_def)
  have 2: "predict_proba margin_model [[1 / 4, - 1 / 4]] = Inr [1 / 2]"
    using t [of margin_model _ "[[1 / 4, - 1 / 4]]" _ "\<lambda>X. Inr (map sum_list X)" "[0]",
             THEN conjunct2, THEN conjunct1]
    by (simp add: margin_model_def)
  have 3: "predict_proba bare_model [[1 / 4, 1 / 2]]
       = Inl (RuntimeError ''Model does not support probability outputs'')"
    using t [of bare_model _ "[[1 / 4, 1 / 2]]", THEN conjunct2, THEN conjunct2, THEN conjunct1]
    by (simp add: bare_model_def)
  have 4: "0 < (1 / 2 :: real) \<and> (1 / 2 :: real) < 1"
    using t [of margin_model _ "[[1 / 4, - 1 / 4]]" _ _ _ "[1 / 2]",
             THEN conjunct2, THEN conjunct2, THEN conjunct2, THEN conjunct1] 2
    by (simp add: margin_model_def)
  have 5: "0 \<le> (3 / 4 :: real) \<and> (3 / 4 :: real) \<le> 1"
    using t [of score_model "\<lambda>X. Inr (map (\<lambda>r. [1 - sum_list r, sum_list r]) X)"
                "[[1 / 4, 1 / 2]]" "[[1 / 4, 3 / 4]]" _ _ "[3 / 4]",
             THEN conjunct2, THEN conjunct2, THEN conjunct2, THEN conjunct2] 1
    by (simp add: score_model_def)
  show ?thesis using 1 2 3 4 5 by simp
qed

subsection \<open>Attribution shapes\<close>

text \<open>The list branch: the array at index 1 and entry 1 of the expected value are selected.\<close>

lemma shap_list_selected:
  assumes "arrs \<noteq> []"
  shows "shap_normalize (SvList arrs) ev
           = Inr ([entries (if 1 < length arrs then arrs ! 1 else arrs ! 0)],
                  (case ev of
                     Seq es \<Rightarrow> if 1 < length es then Scalar (es ! 1) else ev
                   | Scalar b \<Rightarrow> ev))"
  using assms by (cases arrs) (simp_all add: shap_normalize_def reshape_row_def)

text \<open>
  Claim C7. Each of the three explainer output shapes is to be normalized to one vector of
  ten contributions and a single baseline, the positive class (index 1) being selected
  whenever the output is multi-class. The list branch does so: for the two per-class arrays
  and a two-entry expected value it yields the ten contributions of class 1 and entry 1 of
  the expected value. The bare-array branch does not: for the same attributions delivered
  as one array of shape (1, 10, 2) with the same expected value it yields all twenty
  entries and the two-entry expected value, for ten feature labels.
\<close>

theorem bare_array_keeps_both_outputs:
  "shap_normalize (SvArray multi_output_array) (Seq [2 / 5, 3 / 5])
     = Inr ([[- 1, 1, - 2, 2, - 3, 3, - 4, 4, - 5, 5, - 6, 6, - 7, 7, - 8, 8, - 9, 9, - 10, 10]],
            Seq [2 / 5, 3 / 5])
   \<and> length (entries multi_output_array) = 20
   \<and> length FINAL_FEATURES = 10
   \<and> \<not> is_scalar (Seq [2 / 5, 3 / 5])
   \<and> shap_normalize (SvList [class0_array, class1_array]) (Seq [2 / 5, 3 / 5])
     = Inr ([[1, 2, 3, 4, 5, 6, 7, 8, 9, 10]], Scalar (3 / 5))"
  by (simp add: shap_normalize_def reshape_row_def multi_output_array_def class1_array_def
        is_scalar_def FINAL_FEATURES_def)

subsection \<open>Handling a submission\<close>

lemma map_of_zip_map:
  "map_of (zip xs (map f xs)) k = (if k \<in> set xs then Some (f k) else None)"
  by (induction xs) auto

lemma input_echo_selected:
  "set ks \<subseteq> set cols \<Longrightarrow>
     input_echo \<lparr>columns = cols, rows = [map f cols]\<rparr> ks = Inr (map (\<lambda>k. echo_row k (f k)) ks)"
  by (induction ks) (auto simp: iloc0_def cell_def map_of_zip_map)

lemma ensure_Inr_complete:
  assumes "ensure_feature_dataframe d cols = Inr df"
  shows "set cols \<subseteq> fst ` set d"
    and "df = \<lparr>columns = cols, rows = [map (\<lambda>c. the (map_of d c)) cols]\<rparr>"
proof -
  show c: "set cols \<subseteq> fst ` set d"
  proof (rule ccontr)
    assume "\<not> set cols \<subseteq> fst ` set d"
    from ensure_missing [OF this] assms show False by simp
  qed
  from ensure_complete [OF c] assms
  show "df = \<lparr>columns = cols, rows = [map (\<lambda>c. the (map_of d c)) cols]\<rparr>" by simp
qed

lemma on_submit_predicted:
  assumes "ensure_feature_dataframe user_inputs FINAL_FEATURES = Inr df"
    and "preprocessor_transform env df = Inr X"
    and "predict_proba (app_model env) X = Inr a"
    and "float_of_array a = Inr prob"
  shows "on_submit env user_inputs thr show_shap
           = result_events prob thr
             @ [Markdown ''**Input summary**'',
                Dataframe (map (\<lambda>k. echo_row k (the (map_of user_inputs k))) FINAL_FEATURES)]
             @ (if show_shap then
                  fst (shap_block env X)
                  @ (case snd (shap_block env X) of
                       None \<Rightarrow> []
                     | Some e \<Rightarrow> [StError (''Prediction failed: '' @ exn_str e)])
                else [])"
proof -
  note df = ensure_Inr_complete(2) [OF assms(1)]
  have echo: "input_echo df FINAL_FEATURES
          = Inr (map (\<lambda>k. echo_row k (the (map_of user_inputs k))) FINAL_FEATURES)"
    unfolding df by (rule input_echo_selected) simp
  show ?thesis
    using assms echo
    by (simp add: on_submit_def submit_body_def Let_def split: prod.splits option.splits)
qed

lemma scenario_frame:
  "ensure_feature_dataframe scenario_record FINAL_FEATURES
     = Inr \<lparr>columns = FINAL_FEATURES, rows = [[12, 5, 60, 0, 10, 5, 70, 0, 1, 1]]\<rparr>"
proof -
  have "set FINAL_FEATURES \<subseteq> fst ` set scenario_record"
    by (simp add: FINAL_FEATURES_def scenario_record_def)
  from ensure_complete [OF this] show ?thesis
    by (simp add: FINAL_FEATURES_def scenario_record_def)
qed

lemma uncalibrated_app_steps:
  "preprocessor_transform uncalibrated_app
       \<lparr>columns = FINAL_FEATURES, rows = [[12, 5, 60, 0, 10, 5, 70, 0, 1, 1]]\<rparr>
     = Inr [[12, 5, 60, 0, 10, 5, 70, 0, 1, 1]]"
  "predict_proba (app_model uncalibrated_app) [[12, 5, 60, 0, 10, 5, 70, 0, 1, 1]] = Inr [30 / 100]"
  "float_of_array [30 / 100] = Inr (30 / 100)"
  "shap_block uncalibrated_app [[12, 5, 60, 0, 10, 5, 70, 0, 1, 1]]
     = ([Subheader ''SHAP waterfall (single case)''],
        Some (AttributeError ''object has no attribute calibrated_classifiers_''))"
  by (simp_all add: uncalibrated_app_def fixed_model_def predict_proba_def column1_def
        float_of_array_def shap_block_def)

text \<open>
  Claim C3 as written says a failure of the attribution never surfaces as a prediction
  failure. The SHAP block runs inside the \<^verbatim>\<open>try\<close> of the prediction: for a submission
  whose prediction succeeds and whose attribution raises, the last thing shown is the
  handler's "Prediction failed" message.
\<close>

theorem attribution_failure_counterexample:
  "predict_proba (app_model uncalibrated_app) [[12, 5, 60, 0, 10, 5, 70, 0, 1, 1]] = Inr [30 / 100]
   \<and> last (on_submit uncalibrated_app scenario_record (1 / 2) True)
       = StError ''Prediction failed: object has no attribute calibrated_classifiers_''"
  using on_submit_predicted [OF scenario_frame uncalibrated_app_steps(1-3), of "1 / 2" True]
  by (simp add: uncalibrated_app_steps)

text \<open>
  Claim C3, amended. For every submission whose prediction succeeds, the probability, the
  label and the narrative are shown first and stay shown whatever the attribution does.
  When the attribution is requested and raises, the shared handler then shows
  "Prediction failed: " followed by the error, after the result. When the attribution is
  switched off or succeeds, no such message is shown.
\<close>

theorem attribution_failure_after_result:
  assumes "ensure_feature_dataframe user_inputs FINAL_FEATURES = Inr df"
    and "preprocessor_transform env df = Inr X"
    and "predict_proba (app_model env) X = Inr a"
    and "float_of_array a = Inr prob"
  shows "prefix (result_events prob thr) (on_submit env user_inputs thr show_shap)
     \<and> Metric ''Probability'' (format_f 2 (float_mul prob 100) @ ''%'')
           \<in> set (on_submit env user_inputs thr show_shap)
     \<and> (if thr \<le> prob then StError ''High stress risk'' else StSuccess ''Low stress risk'')
           \<in> set (on_submit env user_inputs thr show_shap)
     \<and> Markdown (snd (risk_narrative prob thr)) \<in> set (on_submit env user_inputs thr show_shap)
     \<and> (show_shap \<and> snd (shap_block env X) = Some e \<longrightarrow>
          last (on_submit env user_inputs thr show_shap)
            = StError (''Prediction failed: '' @ exn_str e))
     \<and> (\<not> show_shap \<or> snd (shap_block env X) = None \<longrightarrow>
          (\<forall>m. StError (''Prediction failed: '' @ m) \<notin> set (on_submit env user_inputs thr show_shap)))"
proof -
  note out = on_submit_predicted [OF assms, of thr show_shap]
  have re: "result_events prob thr =
      [Metric ''Probability'' (format_f 2 (float_mul prob 100) @ ''%''),
       Metric ''Threshold'' (format_f 2 thr),
       Metric ''Predicted label'' (str_int (pred prob thr)),
       (if thr \<le> prob then StError ''High stress risk'' else StSuccess ''Low stress risk''),
       Markdown (snd (risk_narrative prob thr)),
       Markdown ''<div class='small-note'>This is a screening aid, not a diagnosis.</div>'']"
    by (simp add: result_events_def risk_narrative_def pred_def Let_def)
  have 1: "prefix (result_events prob thr) (on_submit env user_inputs thr show_shap)"
    unfolding out by simp
  have in_re: "set (result_events prob thr) \<subseteq> set (on_submit env user_inputs thr show_shap)"
    using 1 by (rule set_mono_prefix)
  have 2: "Metric ''Probability'' (format_f 2 (float_mul prob 100) @ ''%'')
           \<in> set (on_submit env user_inputs thr show_shap)"
    and 3: "(if thr \<le> prob then StError ''High stress risk'' else StSuccess ''Low stress risk'')
           \<in> set (on_submit env user_inputs thr show_shap)"
    and 4: "Markdown (snd (risk_narrative prob thr)) \<in> set (on_submit env user_inputs thr show_shap)"
    using in_re unfolding re by simp_all
  have 5: "last (on_submit env user_inputs thr show_shap)
            = StError (''Prediction failed: '' @ exn_str e)"
    if "show_shap \<and> snd (shap_block env X) = Some e"
    unfolding out using that by simp
  have sb: "set (fst (shap_block env X))
      \<subseteq> {Subheader ''SHAP waterfall (single case)''} \<union> range (\<lambda>(v, b). Pyplot v b)"
    by (auto simp: shap_block_def Let_def split: sum.splits prod.splits list.splits option.splits)
  have 6: "\<forall>m. StError (''Prediction failed: '' @ m) \<notin> set (on_submit env user_inputs thr show_shap)"
    if "\<not> show_shap \<or> snd (shap_block env X) = None"
    unfolding out re using that sb by auto
  from 1 2 3 4 5 6 show ?thesis by blast
qed

theorem attribution_failure_after_result_witness:
  "ensure_feature_dataframe scenario_record FINAL_FEATURES
     = Inr \<lparr>columns = FINAL_FEATURES, rows = [[12, 5, 60, 0, 10, 5, 70, 0, 1, 1]]\<rparr>
   \<and> preprocessor_transform uncalibrated_app
       \<lparr>columns = FINAL_FEATURES, rows = [[12, 5, 60, 0, 10, 5, 70, 0, 1, 1]]\<rparr>
     = Inr [[12, 5, 60, 0, 10, 5, 70, 0, 1, 1]]
   \<and> predict_proba (app_model uncalibrated_app) [[12, 5, 60, 0, 10, 5, 70, 0, 1, 1]]
     = Inr [30 / 100]
   \<and> float_of_array [30 / 100] = Inr (30 / 100)
   \<and> snd (shap_block uncalibrated_app [[12, 5, 60, 0, 10, 5, 70, 0, 1, 1]])
     = Some (AttributeError ''object has no attribute calibrated_classifiers_'')
   \<and> prefix (result_events (30 / 100) (1 / 2))
        (on_submit uncalibrated_app scenario_record (1 / 2) True)
   \<and> StSuccess ''Low stress risk'' \<in> set (on_submit uncalibrated_app scenario_record (1 / 2) True)
   \<and> last (on_submit uncalibrated_app scenario_record (1 / 2) True)
       = StError ''Prediction failed: object has no attribute calibrated_classifiers_''
   \<and> StError ''Prediction failed: object has no attribute calibrated_classifiers_''
       \<notin> set (on_submit uncalibrated_app scenario_record (1 / 2) False)"
proof -
  note s = uncalibrated_app_steps
  note t = attribution_failure_after_result [OF scenario_frame s(1) s(2) s(3)]
  have sb: "snd (shap_block uncalibrated_app [[12, 5, 60, 0, 10, 5, 70, 0, 1, 1]])
     = Some (AttributeError ''object has no attribute calibrated_classifiers_'')"
    by (simp add: s(4))
  have 1: "prefix (result_events (30 / 100) (1 / 2))
        (on_submit uncalibrated_app scenario_record (1 / 2) True)"
    by (rule t [THEN conjunct1])
  have 2: "StSuccess ''Low stress risk'' \<in> set (on_submit uncalibrated_app scenario_record (1 / 2) True)"
    using t [of "1 / 2" True, THEN conjunct2, THEN conjunct2, THEN conjunct1] by simp
  have 3: "last (on_submit uncalibrated_app scenario_record (1 / 2) True)
       = StError ''Prediction failed: object has no attribute calibrated_classifiers_''"
    using t [of "1 / 2" True "AttributeError ''object has no attribute calibrated_classifiers_''",
             THEN conjunct2, THEN conjunct2, THEN conjunct2, THEN conjunct2, THEN conjunct1] sb
    by simp
  have 4: "StError ''Prediction failed: object has no attribute calibrated_classifiers_''
       \<notin> set (on_submit uncalibrated_app scenario_record (1 / 2) False)"
    using t [of "1 / 2" False,
             THEN conjunct2, THEN conjunct2, THEN conjunct2, THEN conjunct2, THEN conjunct2]
    by simp
  show ?thesis
    by (intro conjI scenario_frame s(1) s(2) s(3) sb 1 2 3 4)
qed

subsection \<open>Keep-alive probe\<close>

lemma run_attempt_not_found:
  assumes "create_driver env = None" "driver_get env = None"
    and "find_button env = Some TimeoutException"
  shows "run_attempt env url = (True, [CreateDriver, Get url, Sleep 5, FindButton, Quit])"
  using assms by (simp add: run_attempt_def attempt_body_def button_block_def)

lemma run_attempt_gone:
  assumes "create_driver env = None" "driver_get env = None"
    and "find_button env = None" "click_button env = None" "button_gone env = None"
  shows "run_attempt env url
           = (True, [CreateDriver, Get url, Sleep 5, FindButton, Click, Sleep 10, WaitGone, Quit])"
  using assms by (simp add: run_attempt_def attempt_body_def button_block_def)

lemma run_attempt_not_gone:
  assumes "create_driver env = None" "driver_get env = None"
    and "find_button env = None" "click_button env = None" "button_gone env = Some e"
  shows "run_attempt env url
           = (False, [CreateDriver, Get url, Sleep 5, FindButton, Click, Sleep 10, WaitGone, Quit])"
  using assms
  by (cases e) (simp_all add: run_attempt_def attempt_body_def button_block_def)

lemma attempt_loop_success:
  "fst (run_attempt (envs n) url) \<Longrightarrow>
     attempt_loop envs url m n (Suc k) = (True, snd (run_attempt (envs n) url))"
  by (cases "run_attempt (envs n) url") auto

lemma attempt_loop_failure:
  "\<not> fst (run_attempt (envs n) url) \<Longrightarrow>
     attempt_loop envs url m n (Suc k)
       = (fst (attempt_loop envs url m (Suc n) k),
          snd (run_attempt (envs n) url) @ (if n < m then [Sleep 10] else [])
            @ snd (attempt_loop envs url m (Suc n) k))"
  by (cases "run_attempt (envs n) url"; cases "attempt_loop envs url m (Suc n) k") auto

text \<open>The loop reports success exactly when one of the attempts it makes does.\<close>

lemma attempt_loop_result:
  "fst (attempt_loop envs url m n k) \<longleftrightarrow> (\<exists>i. n \<le> i \<and> i < n + k \<and> fst (run_attempt (envs i) url))"
proof (induction k arbitrary: n)
  case 0
  then show ?case by simp
next
  case (Suc k)
  show ?case
  proof (cases "fst (run_attempt (envs n) url)")
    case True
    have "fst (attempt_loop envs url m n (Suc k))"
      using attempt_loop_success [of envs n url m k] True by simp
    moreover have "\<exists>i. n \<le> i \<and> i < n + Suc k \<and> fst (run_attempt (envs i) url)"
      using True by (intro exI [of _ n]) simp
    ultimately show ?thesis by blast
  next
    case False
    have "fst (attempt_loop envs url m n (Suc k)) = fst (attempt_loop envs url m (Suc n) k)"
      using attempt_loop_failure [of envs n url m k] False by simp
    also have "\<dots> \<longleftrightarrow> (\<exists>i. Suc n \<le> i \<and> i < Suc n + k \<and> fst (run_attempt (envs i) url))"
      by (rule Suc.IH)
    also have "\<dots> \<longleftrightarrow> (\<exists>i. n \<le> i \<and> i < n + Suc k \<and> fst (run_attempt (envs i) url))"
    proof
      assume "\<exists>i. Suc n \<le> i \<and> i < Suc n + k \<and> fst (run_attempt (envs i) url)"
      then obtain i where "Suc n \<le> i" "i < Suc n + k" "fst (run_attempt (envs i) url)" by blast
      then show "\<exists>i. n \<le> i \<and> i < n + Suc k \<and> fst (run_attempt (envs i) url)"
        by (intro exI [of _ i]) simp
    next
      assume "\<exists>i. n \<le> i \<and> i < n + Suc k \<and> fst (run_attempt (envs i) url)"
      then obtain i where i: "n \<le> i" "i < n + Suc k" "fst (run_attempt (envs i) url)" by blast
      with False have "i \<noteq> n" by auto
      with i show "\<exists>i. Suc n \<le> i \<and> i < Suc n + k \<and> fst (run_attempt (envs i) url)"
        by (intro exI [of _ i]) simp
    qed
    finally show ?thesis .
  qed
qed

text \<open>
  An attempt whose browser session starts and loads the page, in the cases where the click,
  if any, returns: no button within the wait is success without a click; after the click
  the attempt succeeds exactly when the button goes within its wait; when it stays, the
  driver is quit, the script sleeps 10 seconds if attempts remain, and the outcome is that
  of the remaining attempts.
\<close>

lemma attempt_when_click_returns:
  assumes "create_driver (envs n) = None" and "driver_get (envs n) = None"
  shows "(find_button (envs n) = Some TimeoutException \<longrightarrow>
            run_attempt (envs n) url = (True, [CreateDriver, Get url, Sleep 5, FindButton, Quit])
            \<and> attempt_loop envs url m n (Suc k)
                = (True, [CreateDriver, Get url, Sleep 5, FindButton, Quit]))
     \<and> (find_button (envs n) = None \<and> click_button (envs n) = None \<longrightarrow>
            Click \<in> set (snd (run_attempt (envs n) url))
            \<and> (fst (run_attempt (envs n) url) \<longleftrightarrow> button_gone (envs n) = None))
     \<and> (find_button (envs n) = None \<and> click_button (envs n) = None
          \<and> button_gone (envs n) = None \<longrightarrow>
            attempt_loop envs url m n (Suc k)
              = (True, [CreateDriver, Get url, Sleep 5, FindButton, Click, Sleep 10, WaitGone, Quit]))
     \<and> (find_button (envs n) = None \<and> click_button (envs n) = None
          \<and> button_gone (envs n) = Some TimeoutException \<longrightarrow>
            \<not> fst (run_attempt (envs n) url)
            \<and> attempt_loop envs url m n (Suc k)
                = (fst (attempt_loop envs url m (Suc n) k),
                   [CreateDriver, Get url, Sleep 5, FindButton, Click, Sleep 10, WaitGone, Quit]
                     @ (if n < m then [Sleep 10] else [])
                     @ snd (attempt_loop envs url m (Suc n) k)))"
proof (intro conjI impI)
  assume h: "find_button (envs n) = Some TimeoutException"
  show r: "run_attempt (envs n) url = (True, [CreateDriver, Get url, Sleep 5, FindButton, Quit])"
    by (rule run_attempt_not_found [OF assms h])
  show "attempt_loop envs url m n (Suc k)
                = (True, [CreateDriver, Get url, Sleep 5, FindButton, Quit])"
    using attempt_loop_success [of envs n url m k] r by simp
next
  assume h: "find_button (envs n) = None \<and> click_button (envs n) = None"
  show "Click \<in> set (snd (run_attempt (envs n) url))"
  proof (cases "button_gone (envs n)")
    case None
    with h run_attempt_gone [OF assms, of url] show ?thesis by simp
  next
    case (Some e)
    with h run_attempt_not_gone [OF assms, of e url] show ?thesis by simp
  qed
  show "fst (run_attempt (envs n) url) \<longleftrightarrow> button_gone (envs n) = None"
  proof (cases "button_gone (envs n)")
    case None
    with h run_attempt_gone [OF assms, of url] show ?thesis by simp
  next
    case (Some e)
    with h run_attempt_not_gone [OF assms, of e url] show ?thesis by simp
  qed
next
  assume h: "find_button (envs n) = None \<and> click_button (envs n) = None
          \<and> button_gone (envs n) = None"
  then have "run_attempt (envs n) url
     = (True, [CreateDriver, Get url, Sleep 5, FindButton, Click, Sleep 10, WaitGone, Quit])"
    using run_attempt_gone [OF assms, of url] by simp
  then show "attempt_loop envs url m n (Suc k)
              = (True, [CreateDriver, Get url, Sleep 5, FindButton, Click, Sleep 10, WaitGone, Quit])"
    using attempt_loop_success [of envs n url m k] by simp
next
  assume h: "find_button (envs n) = None \<and> click_button (envs n) = None
          \<and> button_gone (envs n) = Some TimeoutException"
  then have r: "run_attempt (envs n) url
     = (False, [CreateDriver, Get url, Sleep 5, FindButton, Click, Sleep 10, WaitGone, Quit])"
    using run_attempt_not_gone [OF assms, of TimeoutException url] by simp
  then show "\<not> fst (run_attempt (envs n) url)" by simp
  show "attempt_loop envs url m n (Suc k)
                = (fst (attempt_loop envs url m (Suc n) k),
                   [CreateDriver, Get url, Sleep 5, FindButton, Click, Sleep 10, WaitGone, Quit]
                     @ (if n < m then [Sleep 10] else [])
                     @ snd (attempt_loop envs url m (Suc n) k))"
    using attempt_loop_failure [of envs n url m k] r by simp
qed

text \<open>
  Claim C9. In the second keep-alive script an attempt that finds the resume button is to
  click it and report success exactly when the button disappears within its wait. The
  click sits inside the \<^verbatim>\<open>try\<close> whose \<^verbatim>\<open>except TimeoutException\<close> handler is written for
  the button not being found: when the click itself raises \<^verbatim>\<open>TimeoutException\<close> the
  attempt reports success with no wait for the button to disappear, and the script
  returns \<^verbatim>\<open>True\<close> on that first attempt. With the same button and a click that returns,
  the attempt fails.
\<close>

theorem click_timeout_reported_as_success:
  "find_button click_times_out = None
   \<and> click_button click_times_out = Some TimeoutException
   \<and> run_attempt click_times_out ''https://app.example''
       = (True, [CreateDriver, Get ''https://app.example'', Sleep 5, FindButton, Click, Quit])
   \<and> wake_up_streamlit_app (\<lambda>attempt. click_times_out) ''https://app.example'' 3
       = (True, [CreateDriver, Get ''https://app.example'', Sleep 5, FindButton, Click, Quit])
   \<and> run_attempt asleep_stuck ''https://app.example''
       = (False,
          [CreateDriver, Get ''https://app.example'', Sleep 5, FindButton, Click, Sleep 10,
           WaitGone, Quit])"
proof -
  have r: "run_attempt click_times_out ''https://app.example''
       = (True, [CreateDriver, Get ''https://app.example'', Sleep 5, FindButton, Click, Quit])"
    by (simp add: run_attempt_def attempt_body_def button_block_def click_times_out_def)
  have w: "wake_up_streamlit_app (\<lambda>attempt. click_times_out) ''https://app.example'' 3
       = (True, [CreateDriver, Get ''https://app.example'', Sleep 5, FindButton, Click, Quit])"
    using attempt_loop_success [of "\<lambda>attempt. click_times_out" 1 "''https://app.example''" 3 2] r
    by (simp add: wake_up_streamlit_app_def)
  have s: "run_attempt asleep_stuck ''https://app.example''
       = (False,
          [CreateDriver, Get ''https://app.example'', Sleep 5, FindButton, Click, Sleep 10,
           WaitGone, Quit])"
    by (simp add: run_attempt_def attempt_body_def button_block_def asleep_stuck_def)
  show ?thesis
    using r w s by (simp add: click_times_out_def)
qed

subsection \<open>Formatting and the narrative\<close>

lemma digit_cases: "n < 10 \<Longrightarrow> n \<in> {0, 1, 2, 3, 4, 5, 6, 7, 8, 9 :: nat}"
  by (simp; arith)

lemma digit_char_props:
  assumes "n < 10"
  shows "digit_val (digit_char n) = n" and "digit_char n \<noteq> CHR ''.''" and "digit_char n \<noteq> CHR ''-''"
  using digit_cases [OF assms] by (auto simp: digit_char_def digit_val_def)

lemma read_nat_snoc: "read_nat (s @ [c]) = 10 * read_nat s + digit_val c"
  by (simp add: read_nat_def)

lemma read_show_nat: "read_nat (show_nat n) = n"
proof (induction n rule: show_nat.induct)
  case (1 n)
  show ?case
  proof (cases "n < 10")
    case True
    then show ?thesis
      by (subst show_nat.simps) (simp add: read_nat_def digit_char_props)
  next
    case False
    with 1 have "read_nat (show_nat (n div 10)) = n div 10" by simp
    with False show ?thesis
      by (subst show_nat.simps) (simp add: read_nat_snoc digit_char_props)
  qed
qed

lemma show_nat_chars: "c \<in> set (show_nat n) \<Longrightarrow> c \<noteq> CHR ''.'' \<and> c \<noteq> CHR ''-''"
proof (induction n rule: show_nat.induct)
  case (1 n)
  show ?case
  proof (cases "n < 10")
    case True
    with "1.prems" show ?thesis
      by (subst (asm) show_nat.simps) (auto simp: digit_char_props)
  next
    case False
    with 1 show ?thesis
      by (subst (asm) (2) show_nat.simps) (auto simp: digit_char_props)
  qed
qed

lemma show_nat_nonempty: "show_nat n \<noteq> []"
  by (subst show_nat.simps) simp

lemma length_show_digits: "length (show_digits d n) = d"
  by (induction d arbitrary: n) auto

lemma read_show_digits: "read_nat (show_digits d n) = n mod 10 ^ d"
proof (induction d arbitrary: n)
  case 0
  then show ?case by (simp add: read_nat_def)
next
  case (Suc d)
  have "read_nat (show_digits (Suc d) n) = 10 * ((n div 10) mod 10 ^ d) + n mod 10"
    by (simp add: read_nat_snoc Suc digit_char_props)
  also have "\<dots> = n mod 10 ^ Suc d"
    by (simp add: mod_mult2_eq)
  finally show ?case .
qed

lemma split_at_point:
  assumes "\<And>c. c \<in> set ip \<Longrightarrow> c \<noteq> CHR ''.''"
  shows "takeWhile (\<lambda>c. c \<noteq> CHR ''.'') (ip @ CHR ''.'' # fp) = ip"
    and "dropWhile (\<lambda>c. c \<noteq> CHR ''.'') (ip @ CHR ''.'' # fp) = CHR ''.'' # fp"
  using assms by (simp_all add: takeWhile_append2 dropWhile_append2)

lemma read_unsigned_fixed:
  "read_unsigned (show_nat a @ ''.'' @ show_digits d b) = real a + real (b mod 10 ^ d) / 10 ^ d"
  using split_at_point [of "show_nat a" "show_digits d b"] show_nat_chars [of _ a]
  by (simp add: read_unsigned_def read_show_nat read_show_digits length_show_digits)

lemma div_mod_real:
  "real (q div 10 ^ d) + real (q mod 10 ^ d) / 10 ^ d = real q / 10 ^ d"
  using of_nat_of_nat_div_aux [of q "10 ^ d", where ?'a = real] by simp

lemma format_f_unsigned:
  assumes "0 < d"
  shows "format_f d x
           = (if x < 0 then ''-'' else [])
             @ show_nat (nat (round_half_even (\<bar>x\<bar> * 10 ^ d)) div 10 ^ d)
             @ ''.'' @ show_digits d (nat (round_half_even (\<bar>x\<bar> * 10 ^ d)) mod 10 ^ d)"
  using assms by (simp add: format_f_def Let_def)

lemma read_unsigned_format:
  assumes "0 < d"
  shows "\<bar>read_unsigned (show_nat (nat (round_half_even (\<bar>x\<bar> * 10 ^ d)) div 10 ^ d)
             @ ''.'' @ show_digits d (nat (round_half_even (\<bar>x\<bar> * 10 ^ d)) mod 10 ^ d))
          - \<bar>x\<bar>\<bar> \<le> 1 / (2 * 10 ^ d)"
proof -
  let ?y = "\<bar>x\<bar> * 10 ^ d"
  let ?q = "nat (round_half_even ?y)"
  have q: "real ?q = real_of_int (round_half_even ?y)"
    using round_half_even_nonneg [of ?y] by simp
  have "read_unsigned (show_nat (?q div 10 ^ d) @ ''.'' @ show_digits d (?q mod 10 ^ d))
          = real ?q / 10 ^ d"
    by (simp only: read_unsigned_fixed mod_mod_trivial div_mod_real)
  moreover have "\<bar>real ?q / 10 ^ d - \<bar>x\<bar>\<bar> = \<bar>real ?q - ?y\<bar> / 10 ^ d"
  proof -
    have "real ?q / 10 ^ d - \<bar>x\<bar> = (real ?q - ?y) / 10 ^ d"
      by (simp add: field_simps)
    then show ?thesis by (simp add: abs_divide del: abs_mult)
  qed
  moreover have "\<bar>real ?q - ?y\<bar> / 10 ^ d \<le> (1 / 2) / 10 ^ d"
    using round_half_even_near [of ?y] unfolding q
    by (intro divide_right_mono) simp_all
  ultimately show ?thesis by simp
qed

lemma read_decimal_format:
  assumes "0 < d"
  shows "\<bar>read_decimal (format_f d x) - x\<bar> \<le> 1 / (2 * 10 ^ d)"
proof (cases "x < 0")
  case True
  then have "read_decimal (format_f d x)
      = - read_unsigned (show_nat (nat (round_half_even (\<bar>x\<bar> * 10 ^ d)) div 10 ^ d)
             @ ''.'' @ show_digits d (nat (round_half_even (\<bar>x\<bar> * 10 ^ d)) mod 10 ^ d))"
    by (simp add: format_f_unsigned [OF assms] read_decimal_def)
  with True read_unsigned_format [OF assms, of x] show ?thesis by simp
next
  case False
  let ?ip = "show_nat (nat (round_half_even (\<bar>x\<bar> * 10 ^ d)) div 10 ^ d)"
  obtain c cs where ip: "?ip = c # cs"
    using show_nat_nonempty by (cases ?ip) auto
  then have "c \<in> set ?ip" by simp
  then have "c \<noteq> CHR ''-''" using show_nat_chars by blast
  with False ip have "read_decimal (format_f d x)
      = read_unsigned (?ip
             @ ''.'' @ show_digits d (nat (round_half_even (\<bar>x\<bar> * 10 ^ d)) mod 10 ^ d))"
    by (simp add: format_f_unsigned [OF assms] read_decimal_def)
  with False read_unsigned_format [OF assms, of x] show ?thesis by simp
qed

lemma frac_digits_format:
  assumes "0 < d"
  shows "frac_digits (format_f d x) = d"
proof -
  let ?ip = "(if x < 0 then ''-'' else []) @ show_nat (nat (round_half_even (\<bar>x\<bar> * 10 ^ d)) div 10 ^ d)"
  have "c \<noteq> CHR ''.''" if "c \<in> set ?ip" for c
    using that show_nat_chars by (auto split: if_splits)
  from split_at_point(2) [OF this]
  have "dropWhile (\<lambda>c. c \<noteq> CHR ''.'') (?ip @ CHR ''.'' # show_digits d (nat (round_half_even (\<bar>x\<bar> * 10 ^ d)) mod 10 ^ d))
      = CHR ''.'' # show_digits d (nat (round_half_even (\<bar>x\<bar> * 10 ^ d)) mod 10 ^ d)"
    by blast
  then show ?thesis
    by (simp add: frac_digits_def format_f_unsigned [OF assms] length_show_digits)
qed

lemma show_digits_1: "show_digits (Suc 0) n = [digit_char (n mod 10)]"
  by simp

lemma show_digits_2: "show_digits 2 n = [digit_char (n div 10 mod 10), digit_char (n mod 10)]"
  by (simp add: numeral_2_eq_2)

lemmas format_eval =
  format_f_def round_half_even_def show_nat.simps show_digits_1 show_digits_2 digit_char_def Let_def

lemma double_literals:
  "round_to_double (3 / 10) = 5404319552844595 / 18014398509481984"
  "round_to_double (1 / 2) = 1 / 2"
  by (simp_all add: double_eval)

lemma scenario_product: "float_mul (5404319552844595 / 18014398509481984) 100 = 30"
  by (simp add: double_eval)

lemma format_pct_scenario: "format_f (Suc 0) 30 = ''30.0''"
  by (simp add: format_eval)

lemma format_thr_scenario: "format_f 2 (1 / 2) = ''0.50''"
  by (simp add: format_eval)

text \<open>
  The product is rounded before it is formatted: for the doubles nearest to 0.3745 and to
  0.00065 the rounded product is printed as 37.5 and 0.07, where the exact product would
  give 37.4 and 0.06.
\<close>

lemma rounded_product_examples:
  "format_f 1 (float_mul (round_to_double (3745 / 10000)) 100) = ''37.5''"
  "format_f 1 (round_to_double (3745 / 10000) * 100) = ''37.4''"
  "format_f 2 (float_mul (round_to_double (65 / 100000)) 100) = ''0.07''"
  "format_f 2 (round_to_double (65 / 100000) * 100) = ''0.06''"
  "round_to_double (2 ^ 53 + 1) = 2 ^ 53"
  by (simp_all add: double_eval format_eval)

lemma scenario_narrative:
  "risk_narrative (round_to_double (3 / 10)) (round_to_double (1 / 2))
     = (''Low stress risk'',
        ''Predicted probability of caregiver stress is 30.0% (< threshold 0.50). No immediate concern indicated by this model.'')"
  by (simp add: risk_narrative_def Let_def double_literals scenario_product
        format_pct_scenario format_thr_scenario)

text \<open>
  Claim C8. For every probability and threshold, the narrative reports the probability as a
  percentage with one digit after the point: the number printed is the nearest such number
  to the percentage the program computes, the double product \<^verbatim>\<open>prob*100\<close>, which is the
  double nearest to the exact percentage. It restates the threshold with two digits after
  the point, the nearest such number to it. For probability 0.30 and threshold 0.50 the
  label is Low and the narrative contains "30.0%" and "< threshold 0.50".
\<close>

theorem narrative_reports_probability_and_threshold:
  "snd (risk_narrative prob thr)
     = ''Predicted probability of caregiver stress is '' @ format_f 1 (float_mul prob 100)
       @ ''% ('' @ (if thr \<le> prob then ge_sign else ''<'') @ '' threshold ''
       @ format_f 2 thr @ ''). ''
       @ (if thr \<le> prob then ''This screening suggests a high risk of stress. ''
          else ''No immediate concern indicated by this model.'')
   \<and> frac_digits (format_f 1 (float_mul prob 100)) = 1
   \<and> \<bar>read_decimal (format_f 1 (float_mul prob 100)) - float_mul prob 100\<bar> \<le> 1 / 20
   \<and> \<bar>float_mul prob 100 - prob * 100\<bar> \<le> max (\<bar>prob * 100\<bar> / 2 ^ 53) (1 / 2 ^ 1075)
   \<and> frac_digits (format_f 2 thr) = 2
   \<and> \<bar>read_decimal (format_f 2 thr) - thr\<bar> \<le> 1 / 200
   \<and> fst (risk_narrative (round_to_double (30 / 100)) (round_to_double (50 / 100)))
       = ''Low stress risk''
   \<and> sublist ''30.0%''
        (snd (risk_narrative (round_to_double (30 / 100)) (round_to_double (50 / 100))))
   \<and> sublist ''< threshold 0.50''
        (snd (risk_narrative (round_to_double (30 / 100)) (round_to_double (50 / 100))))"
proof (intro conjI)
  show "snd (risk_narrative prob thr)
     = ''Predicted probability of caregiver stress is '' @ format_f 1 (float_mul prob 100)
       @ ''% ('' @ (if thr \<le> prob then ge_sign else ''<'') @ '' threshold ''
       @ format_f 2 thr @ ''). ''
       @ (if thr \<le> prob then ''This screening suggests a high risk of stress. ''
          else ''No immediate concern indicated by this model.'')"
    by (simp add: risk_narrative_def Let_def)
  show "frac_digits (format_f 1 (float_mul prob 100)) = 1"
    by (rule frac_digits_format) simp
  show "\<bar>read_decimal (format_f 1 (float_mul prob 100)) - float_mul prob 100\<bar> \<le> 1 / 20"
    using read_decimal_format [of 1 "float_mul prob 100"] by simp
  show "\<bar>float_mul prob 100 - prob * 100\<bar> \<le> max (\<bar>prob * 100\<bar> / 2 ^ 53) (1 / 2 ^ 1075)"
    unfolding float_mul_def by (rule round_to_double_error)
  show "frac_digits (format_f 2 thr) = 2"
    by (rule frac_digits_format) simp
  show "\<bar>read_decimal (format_f 2 thr) - thr\<bar> \<le> 1 / 200"
    using read_decimal_format [of 2 thr] by simp
  have n: "risk_narrative (round_to_double (30 / 100)) (round_to_double (50 / 100))
     = (''Low stress risk'',
        ''Predicted probability of caregiver stress is 30.0% (< threshold 0.50). No immediate concern indicated by this model.'')"
    using scenario_narrative by simp
  show "fst (risk_narrative (round_to_double (30 / 100)) (round_to_double (50 / 100)))
       = ''Low stress risk''"
    unfolding n by simp
  have "snd (risk_narrative (round_to_double (30 / 100)) (round_to_double (50 / 100)))
          = ''Predicted probability of caregiver stress is '' @ ''30.0%''
            @ '' (< threshold 0.50). No immediate concern indicated by this model.''"
    unfolding n by simp
  then show "sublist ''30.0%''
        (snd (risk_narrative (round_to_double (30 / 100)) (round_to_double (50 / 100))))"
    unfolding sublist_def by blast
  have "snd (risk_narrative (round_to_double (30 / 100)) (round_to_double (50 / 100)))
          = ''Predicted probability of caregiver stress is 30.0% ('' @ ''< threshold 0.50''
            @ ''). No immediate concern indicated by this model.''"
    unfolding n by simp
  then show "sublist ''< threshold 0.50''
        (snd (risk_narrative (round_to_double (30 / 100)) (round_to_double (50 / 100))))"
    unfolding sublist_def by blast
qed

end
